theory Spec2Isabelle
  imports Complex_Main "HOL-Library.AList"
begin

section \<open>Conventions\<close>

text \<open>
  The development embeds the deterministic core of the CFO helper backend:
  the forecast simulator of \<^verbatim>\<open>main.py\<close>, the retrieval index of
  \<^verbatim>\<open>app/services/llm_rag_agent.py\<close> and the scenario engine of
  \<^verbatim>\<open>app/services/rag_agent.py\<close> with its HTTP wrapper in
  \<^verbatim>\<open>app/api/endpoints/rag.py\<close>.

  Python \<^verbatim>\<open>int\<close> is \<^typ>\<open>int\<close>. A Python \<^verbatim>\<open>dict\<close> is an association list in
  insertion order, read with \<^const>\<open>map_of\<close> and written with \<^const>\<open>AList.update\<close>.
  A raised exception is the left injection of a sum.

  The forecast simulator accumulates a balance month after month and tests its sign, so
  its \<^verbatim>\<open>float\<close> values are IEEE binary64 numbers with their rounding, infinities and
  \<^verbatim>\<open>nan\<close>. The scenario engine adds a change to a field once and subtracts two fields
  once; there a \<^verbatim>\<open>float\<close> is a \<^typ>\<open>real\<close> and \<open>+\<close>, \<open>-\<close> stand for the program's
  own addition and subtraction.
\<close>


section \<open>Python values and exceptions\<close>

text \<open>
  The values a JSON request body or a model field can hold. \<^verbatim>\<open>datetime\<close> is an abstract
  time stamp.
\<close>

type_synonym datetime = nat

datatype pyval =
    PNone
  | PBool bool
  | PInt int
  | PFloat real
  | PStr string
  | PDatetime datetime
  | PList "pyval list"
  | PDict "(string \<times> pyval) list"

text \<open>
  The exceptions the embedded code can raise. \<^verbatim>\<open>ValueError\<close> carries its message;
  \<^verbatim>\<open>ValidationError\<close> is pydantic's (version 1, which \<^verbatim>\<open>app/core/config.py\<close> requires by
  importing \<^verbatim>\<open>BaseSettings\<close> from \<^verbatim>\<open>pydantic\<close>) and carries the names of the rejected
  fields; in that version it is a subclass of \<^verbatim>\<open>ValueError\<close>.
\<close>

datatype error =
    ValueError string
  | ValidationError "string list"
  | TypeError
  | ZeroDivisionError
  | IndexError
  | AssertionError
  | OverflowError

definition is_ValueError :: "error \<Rightarrow> bool" where
  "is_ValueError e = (case e of ValueError _ \<Rightarrow> True | ValidationError _ \<Rightarrow> True | _ \<Rightarrow> False)"

definition str_error :: "error \<Rightarrow> string" where
  "str_error e = (case e of
      ValueError msg \<Rightarrow> msg
    | ValidationError names \<Rightarrow> ''validation error for '' @ concat (map (\<lambda>f. f @ '' '') names)
    | TypeError \<Rightarrow> ''unsupported operand type(s) for +=''
    | ZeroDivisionError \<Rightarrow> ''float division by zero''
    | IndexError \<Rightarrow> ''list index out of range''
    | AssertionError \<Rightarrow> []
    | OverflowError \<Rightarrow> ''int too large to convert to float'')"

text \<open>
  Subscripting a list with an integer: positions \<open>0\<close> to \<open>len - 1\<close> read from the front,
  positions \<open>-1\<close> down to \<open>-len\<close> read from the back, every other position raises.
\<close>

definition py_getitem :: "'a list \<Rightarrow> int \<Rightarrow> error + 'a" where
  "py_getitem xs i =
     (if 0 \<le> i \<and> i < int (length xs) then Inr (xs ! nat i)
      else if i < 0 \<and> - int (length xs) \<le> i then Inr (xs ! nat (int (length xs) + i))
      else Inl IndexError)"

text \<open>\<^verbatim>\<open>isinstance(v, (int, float))\<close>; \<^verbatim>\<open>bool\<close> is a subclass of \<^verbatim>\<open>int\<close>.\<close>

fun is_number :: "pyval \<Rightarrow> bool" where
  "is_number (PInt _) = True"
| "is_number (PFloat _) = True"
| "is_number (PBool _) = True"
| "is_number _ = False"

text \<open>
  \<^verbatim>\<open>a += b\<close> for a number \<^verbatim>\<open>a\<close>: integer addition stays an integer, a float operand
  makes the sum a float, anything that is not a number raises \<^verbatim>\<open>TypeError\<close>.
\<close>

fun py_iadd :: "pyval \<Rightarrow> pyval \<Rightarrow> error + pyval" where
  "py_iadd (PInt a) (PInt b) = Inr (PInt (a + b))"
| "py_iadd (PInt a) (PBool b) = Inr (PInt (a + of_bool b))"
| "py_iadd (PInt a) (PFloat b) = Inr (PFloat (real_of_int a + b))"
| "py_iadd (PFloat a) (PInt b) = Inr (PFloat (a + real_of_int b))"
| "py_iadd (PFloat a) (PBool b) = Inr (PFloat (a + of_bool b))"
| "py_iadd (PFloat a) (PFloat b) = Inr (PFloat (a + b))"
| "py_iadd (PBool a) (PInt b) = Inr (PInt (of_bool a + b))"
| "py_iadd (PBool a) (PBool b) = Inr (PInt (of_bool a + of_bool b))"
| "py_iadd (PBool a) (PFloat b) = Inr (PFloat (of_bool a + b))"
| "py_iadd _ _ = Inl TypeError"

text \<open>\<^verbatim>\<open>str(n)\<close> for a natural number: its decimal digits.\<close>

fun str_nat :: "nat \<Rightarrow> string" where
  "str_nat n = (if n < 10 then [char_of (48 + n)]
                else str_nat (n div 10) @ [char_of (48 + n mod 10)])"

text \<open>Reading decimal digits back, used to show that \<^const>\<open>str_nat\<close> is injective.\<close>

definition nat_of_digits :: "string \<Rightarrow> nat" where
  "nat_of_digits s = foldl (\<lambda>a c. 10 * a + (of_char c - 48)) 0 s"

text \<open>\<^verbatim>\<open>sep.join(xs)\<close>.\<close>

fun join :: "string \<Rightarrow> string list \<Rightarrow> string" where
  "join sep [] = []"
| "join sep [x] = x"
| "join sep (x # y # ys) = x @ sep @ join sep (y # ys)"

text \<open>
  \<^verbatim>\<open>s.strip()\<close>. Strings are held as UTF-8 bytes; the white space of ASCII is the
  characters 9 to 13, 28 to 32.
\<close>

definition is_space :: "char \<Rightarrow> bool" where
  "is_space c = (c \<in> set [CHR '' '', CHR 0x09, CHR 0x0A, CHR 0x0B, CHR 0x0C, CHR 0x0D,
                            CHR 0x1C, CHR 0x1D, CHR 0x1E, CHR 0x1F])"

definition py_strip :: "string \<Rightarrow> string" where
  "py_strip s = rev (dropWhile is_space (rev (dropWhile is_space s)))"

declare str_nat.simps [simp del]

section \<open>Binary64 arithmetic\<close>

text \<open>
  A Python \<^verbatim>\<open>float\<close>: a finite number, an infinity or \<^verbatim>\<open>nan\<close>. The two zeros are
  identified; no comparison of the embedded code tells them apart.
\<close>

datatype double = Finite real | PosInf | NegInf | NaN

text \<open>Rounding to the nearest integer, a tie going to the even one.\<close>

definition round_half_even :: "real \<Rightarrow> int" where
  "round_half_even r =
     (let f = \<lfloor>r\<rfloor>; d = r - real_of_int f
      in if d < 1 / 2 then f else if 1 / 2 < d then f + 1 else if even f then f else f + 1)"

text \<open>
  Rounding a real number to binary64, to nearest with ties to even: the significand has
  53 bits, so the unit in the last place of \<open>x\<close> is \<open>2\<close> to the power
  \<open>\<lfloor>log\<^sub>2 |x|\<rfloor> - 52\<close>, and never less than \<open>2\<close> to the power \<open>-1074\<close> (the subnormal
  numbers). A result of magnitude \<open>2\<^sup>1\<^sup>0\<^sup>2\<^sup>4\<close> or more overflows to an infinity.
\<close>

definition binary64 :: "real \<Rightarrow> double" where
  "binary64 x =
     (if x = 0 then Finite 0
      else let e = max (\<lfloor>log 2 \<bar>x\<bar>\<rfloor> - 52) (- 1074);
               y = real_of_int (round_half_even (x / 2 powi e)) * 2 powi e
           in if 2 ^ 1024 \<le> \<bar>y\<bar> then (if 0 < x then PosInf else NegInf) else Finite y)"

fun fneg :: "double \<Rightarrow> double" where
  "fneg (Finite a) = Finite (- a)"
| "fneg PosInf = NegInf"
| "fneg NegInf = PosInf"
| "fneg NaN = NaN"

fun fadd :: "double \<Rightarrow> double \<Rightarrow> double" where
  "fadd (Finite a) (Finite b) = binary64 (a + b)"
| "fadd NaN _ = NaN"
| "fadd _ NaN = NaN"
| "fadd PosInf NegInf = NaN"
| "fadd NegInf PosInf = NaN"
| "fadd PosInf _ = PosInf"
| "fadd _ PosInf = PosInf"
| "fadd NegInf _ = NegInf"
| "fadd _ NegInf = NegInf"

definition fsub :: "double \<Rightarrow> double \<Rightarrow> double" where
  "fsub a b = fadd a (fneg b)"

definition signed_inf :: "bool \<Rightarrow> double" where
  "signed_inf positive = (if positive then PosInf else NegInf)"

fun fmul :: "double \<Rightarrow> double \<Rightarrow> double" where
  "fmul (Finite a) (Finite b) = binary64 (a * b)"
| "fmul NaN _ = NaN"
| "fmul _ NaN = NaN"
| "fmul (Finite a) PosInf = (if a = 0 then NaN else signed_inf (0 < a))"
| "fmul (Finite a) NegInf = (if a = 0 then NaN else signed_inf (a < 0))"
| "fmul PosInf (Finite b) = (if b = 0 then NaN else signed_inf (0 < b))"
| "fmul NegInf (Finite b) = (if b = 0 then NaN else signed_inf (b < 0))"
| "fmul PosInf PosInf = PosInf"
| "fmul PosInf NegInf = NegInf"
| "fmul NegInf PosInf = NegInf"
| "fmul NegInf NegInf = PosInf"

text \<open>\<^verbatim>\<open>a / b\<close> on floats: Python raises on a zero divisor, whatever the dividend.\<close>

fun fdiv :: "double \<Rightarrow> double \<Rightarrow> error + double" where
  "fdiv (Finite a) (Finite b) =
     (if b = 0 then Inl ZeroDivisionError else Inr (binary64 (a / b)))"
| "fdiv PosInf (Finite b) =
     (if b = 0 then Inl ZeroDivisionError else Inr (signed_inf (0 < b)))"
| "fdiv NegInf (Finite b) =
     (if b = 0 then Inl ZeroDivisionError else Inr (signed_inf (b < 0)))"
| "fdiv NaN (Finite b) = (if b = 0 then Inl ZeroDivisionError else Inr NaN)"
| "fdiv _ NaN = Inr NaN"
| "fdiv (Finite a) _ = Inr (Finite 0)"
| "fdiv _ _ = Inr NaN"

text \<open>
  \<^verbatim>\<open>float(i)\<close>, also applied to the integer operand of a mixed operation: the nearest
  binary64 number, and \<^verbatim>\<open>OverflowError\<close> when there is none.
\<close>

definition float_of_int :: "int \<Rightarrow> error + double" where
  "float_of_int i =
     (case binary64 (real_of_int i) of
        Finite y \<Rightarrow> Inr (Finite y)
      | _ \<Rightarrow> Inl OverflowError)"

text \<open>The comparisons \<^verbatim>\<open>x > 0\<close> and \<^verbatim>\<open>x <= 0\<close>; both are false of \<^verbatim>\<open>nan\<close>.\<close>

fun gt_zero :: "double \<Rightarrow> bool" where
  "gt_zero (Finite a) = (0 < a)"
| "gt_zero PosInf = True"
| "gt_zero _ = False"

fun le_zero :: "double \<Rightarrow> bool" where
  "le_zero (Finite a) = (a \<le> 0)"
| "le_zero NegInf = True"
| "le_zero _ = False"

section \<open>Forecast simulator (main.py)\<close>

record ScenarioInput =
  current_cash :: double
  monthly_revenue :: double
  monthly_expenses :: double
  new_hires :: int
  salary_per_hire :: double
  marketing_spend :: double
  price_increase_percent :: double
  months_to_forecast :: int

record ForecastEntry =
  month :: int
  revenue :: double
  expenses :: double
  net_income :: double
  balance :: double

record ScenarioResult =
  scenario_id :: string
  timestamp :: string
  input :: ScenarioInput
  monthly_forecast :: "ForecastEntry list"
  total_months_of_runway :: int
  final_cash_balance :: double

text \<open>
  The body of \<^verbatim>\<open>for month in range(1, months_to_forecast + 1)\<close>. The loop state is
  \<^verbatim>\<open>(monthly_data, current_balance, months_of_runway)\<close>; the \<^verbatim>\<open>break\<close> is the branch
  that returns without the recursive call.
\<close>

fun forecast_loop ::
  "ScenarioInput \<Rightarrow> double \<Rightarrow> double \<Rightarrow> int list \<Rightarrow>
   ForecastEntry list \<times> double \<times> int \<Rightarrow> ForecastEntry list \<times> double \<times> int" where
  "forecast_loop scenario adjusted_revenue hiring_costs [] st = st"
| "forecast_loop scenario adjusted_revenue hiring_costs (m # months)
     (monthly_data, current_balance, months_of_runway) =
     (let monthly_net = fsub (fsub (fsub adjusted_revenue
                                      (ScenarioInput.monthly_expenses scenario))
                                hiring_costs)
                          (ScenarioInput.marketing_spend scenario);
          current_balance' = fadd current_balance monthly_net;
          monthly_data' = monthly_data @
            [\<lparr>month = m,
              revenue = adjusted_revenue,
              expenses = fadd (fadd (ScenarioInput.monthly_expenses scenario) hiring_costs)
                           (ScenarioInput.marketing_spend scenario),
              net_income = monthly_net,
              balance = current_balance'\<rparr>];
          months_of_runway' = (if gt_zero current_balance' then m else months_of_runway)
      in if le_zero current_balance'
         then (monthly_data', current_balance', months_of_runway')
         else forecast_loop scenario adjusted_revenue hiring_costs months
                (monthly_data', current_balance', months_of_runway'))"

text \<open>
  \<^verbatim>\<open>calculate_runway\<close>. The global \<^verbatim>\<open>usage_counter\<close> is passed in and returned
  incremented, also when the call raises; the two readings of \<^verbatim>\<open>datetime.now()\<close> arrive
  already formatted (\<^verbatim>\<open>strftime('%Y%m%d_%H%M%S')\<close> and \<^verbatim>\<open>isoformat()\<close>). The integer
  literals \<open>1\<close> and \<open>100\<close> become floats exactly; the integer \<^verbatim>\<open>new_hires\<close> becomes a
  float by \<^const>\<open>float_of_int\<close>.
\<close>

definition calculate_runway ::
  "string \<Rightarrow> string \<Rightarrow> nat \<Rightarrow> ScenarioInput \<Rightarrow> (error + ScenarioResult) \<times> nat" where
  "calculate_runway now_stamp now_iso usage_counter scenario =
     (case fdiv (price_increase_percent scenario) (Finite 100) of
        Inl e \<Rightarrow> (Inl e, usage_counter + 1)
      | Inr fraction \<Rightarrow>
     (let adjusted_revenue = fmul (ScenarioInput.monthly_revenue scenario)
                               (fadd (Finite 1) fraction)
      in case float_of_int (new_hires scenario) of
        Inl e \<Rightarrow> (Inl e, usage_counter + 1)
      | Inr hires \<Rightarrow>
     (let hiring_costs = fmul hires (salary_per_hire scenario);
          (monthly_data, current_balance, months_of_runway) =
             forecast_loop scenario adjusted_revenue hiring_costs
               [1 .. months_to_forecast scenario]
               ([], ScenarioInput.current_cash scenario, 0)
      in (Inr \<lparr>scenario_id = ''scn_'' @ now_stamp,
               timestamp = now_iso,
               input = scenario,
               monthly_forecast = monthly_data,
               total_months_of_runway = months_of_runway,
               final_cash_balance = current_balance\<rparr>,
          usage_counter + 1))))"

subsection \<open>What the loop accumulates\<close>

text \<open>
  The adjusted revenue and the hiring costs of a scenario as \<^const>\<open>calculate_runway\<close>
  computes them before the loop, or the exception raised on the way.
\<close>

definition scenario_rates :: "ScenarioInput \<Rightarrow> error + double \<times> double" where
  "scenario_rates scenario =
     (case fdiv (price_increase_percent scenario) (Finite 100) of
        Inl e \<Rightarrow> Inl e
      | Inr fraction \<Rightarrow>
          (case float_of_int (new_hires scenario) of
             Inl e \<Rightarrow> Inl e
           | Inr hires \<Rightarrow>
               Inr (fmul (ScenarioInput.monthly_revenue scenario) (fadd (Finite 1) fraction),
                    fmul hires (salary_per_hire scenario))))"

text \<open>The monthly net cash flow, as the loop body computes it from the two rates.\<close>

definition net_of :: "ScenarioInput \<Rightarrow> double \<times> double \<Rightarrow> double" where
  "net_of scenario rates =
     fsub (fsub (fsub (fst rates) (ScenarioInput.monthly_expenses scenario)) (snd rates))
       (ScenarioInput.marketing_spend scenario)"

text \<open>
  The running balance after \<open>j\<close> months: the starting cash with the monthly net added
  \<open>j\<close> times, one rounded addition after the other, as \<^verbatim>\<open>current_balance += monthly_net\<close>
  does.
\<close>

fun running_balance :: "double \<Rightarrow> double \<Rightarrow> nat \<Rightarrow> double" where
  "running_balance cash net 0 = cash"
| "running_balance cash net (Suc j) = fadd (running_balance cash net j) net"

definition balance_after :: "ScenarioInput \<Rightarrow> double \<times> double \<Rightarrow> int \<Rightarrow> double" where
  "balance_after scenario rates j =
     running_balance (ScenarioInput.current_cash scenario) (net_of scenario rates) (nat j)"

definition entry_at :: "ScenarioInput \<Rightarrow> double \<times> double \<Rightarrow> int \<Rightarrow> ForecastEntry" where
  "entry_at scenario rates m =
     \<lparr>month = m,
      revenue = fst rates,
      expenses = fadd (fadd (ScenarioInput.monthly_expenses scenario) (snd rates))
                   (ScenarioInput.marketing_spend scenario),
      net_income = net_of scenario rates,
      balance = balance_after scenario rates m\<rparr>"

text \<open>
  The month recorded as runway after the loop has gone through the months \<open>ms\<close>: the
  last of them with a positive balance.
\<close>

definition runway_over :: "ScenarioInput \<Rightarrow> double \<times> double \<Rightarrow> int \<Rightarrow> int list \<Rightarrow> int" where
  "runway_over scenario rates r ms =
     foldl (\<lambda>r j. if gt_zero (balance_after scenario rates j) then j else r) r ms"

subsection \<open>Sample scenarios\<close>

definition insolvent_input :: "int \<Rightarrow> ScenarioInput" where
  "insolvent_input n =
     \<lparr>current_cash = Finite 10000, monthly_revenue = Finite 5000,
      monthly_expenses = Finite 6000, new_hires = 0, salary_per_hire = Finite 0,
      marketing_spend = Finite 0, price_increase_percent = Finite 0,
      months_to_forecast = n\<rparr>"

definition solvent_input :: "int \<Rightarrow> ScenarioInput" where
  "solvent_input n =
     \<lparr>current_cash = Finite 1000, monthly_revenue = Finite 8000,
      monthly_expenses = Finite 5000, new_hires = 0, salary_per_hire = Finite 0,
      marketing_spend = Finite 0, price_increase_percent = Finite 0,
      months_to_forecast = n\<rparr>"

section \<open>Retrieval index (app/services/llm\_rag\_agent.py)\<close>

text \<open>
  A stored document is a dictionary with a \<^verbatim>\<open>text\<close> entry and, once
  \<^verbatim>\<open>OpenLLMRAGAgent.add_documents\<close> has run, an \<^verbatim>\<open>embedding\<close> entry that the store
  never reads.
\<close>

record Document =
  doc_text :: string
  embedding :: "real list option"

record VectorStore =
  dimension :: nat
  index :: "real list list"
  documents :: "Document list"

definition VectorStore_init :: "nat \<Rightarrow> VectorStore" where
  "VectorStore_init d = \<lparr>dimension = d, index = [], documents = []\<rparr>"

text \<open>
  \<^verbatim>\<open>np.random.rand(n, d)\<close>: the draw is a parameter, \<open>rand i j\<close> being the entry in row
  \<open>i\<close> and column \<open>j\<close>.
\<close>

definition random_rows :: "(nat \<Rightarrow> nat \<Rightarrow> real) \<Rightarrow> nat \<Rightarrow> nat \<Rightarrow> real list list" where
  "random_rows rand n d = map (\<lambda>i. map (rand i) [0 ..< d]) [0 ..< n]"

text \<open>
  Modelled from the library: \<^verbatim>\<open>faiss.IndexFlatL2\<close> is not part of the repository. Its
  \<^verbatim>\<open>search(q, k)\<close> returns \<open>k\<close> labels, the positions of the stored vectors by increasing
  squared Euclidean distance to \<open>q\<close>, and fills the labels for which no vector is left
  with \<open>-1\<close>. The order among equal distances is not fixed by the library; the model
  takes the stable one.
\<close>

definition l2sqr :: "real list \<Rightarrow> real list \<Rightarrow> real" where
  "l2sqr x y = sum_list (map (\<lambda>(a, b). (a - b)\<^sup>2) (zip x y))"

definition IndexFlatL2_search :: "real list list \<Rightarrow> real list \<Rightarrow> nat \<Rightarrow> int list" where
  "IndexFlatL2_search vectors q k =
     (let order = sort_key (\<lambda>i. l2sqr (vectors ! i) q) [0 ..< length vectors];
          found = map int (take k order)
      in found @ replicate (k - length found) (- 1))"

definition add_documents ::
  "(nat \<Rightarrow> nat \<Rightarrow> real) \<Rightarrow> Document list \<Rightarrow> VectorStore \<Rightarrow> VectorStore" where
  "add_documents rand docs vs =
     (if docs = [] then vs
      else let texts = map doc_text docs;
               vs' = vs\<lparr>documents := documents vs @ docs\<rparr>;
               embeddings = random_rows rand (length texts) (dimension vs');
               vs'' = (if length (index vs') = 0 then vs'\<lparr>index := []\<rparr> else vs')
           in vs''\<lparr>index := index vs'' @ embeddings\<rparr>)"

text \<open>
  The comprehension \<^verbatim>\<open>[self.documents[idx] for idx in indices[0] if idx < len(self.documents)]\<close>.
\<close>

fun select_documents :: "Document list \<Rightarrow> int list \<Rightarrow> error + Document list" where
  "select_documents docs [] = Inr []"
| "select_documents docs (idx # rest) =
     (if idx < int (length docs)
      then (case py_getitem docs idx of
              Inl e \<Rightarrow> Inl e
            | Inr d \<Rightarrow> (case select_documents docs rest of
                         Inl e \<Rightarrow> Inl e
                       | Inr ds \<Rightarrow> Inr (d # ds)))
      else select_documents docs rest)"

text \<open>
  \<^verbatim>\<open>VectorStore.search\<close>. The query text is not used: the query embedding is a random
  draw. The library rejects \<open>k \<le> 0\<close> by an assertion.
\<close>

definition search ::
  "(nat \<Rightarrow> nat \<Rightarrow> real) \<Rightarrow> VectorStore \<Rightarrow> string \<Rightarrow> int \<Rightarrow> error + Document list" where
  "search rand vs query k =
     (if documents vs = [] then Inr []
      else let query_embedding = random_rows rand 1 (dimension vs)
           in if k \<le> 0 then Inl AssertionError
              else select_documents (documents vs)
                     (IndexFlatL2_search (index vs) (hd query_embedding) (nat k)))"

definition two_documents :: "Document list" where
  "two_documents = [\<lparr>doc_text = ''runway'', embedding = None\<rparr>,
                    \<lparr>doc_text = ''pricing'', embedding = None\<rparr>]"

section \<open>Scenario engine (app/services/rag\_agent.py)\<close>

record FinancialContext =
  id_str :: string
  company_id :: string
  current_cash :: real
  monthly_revenue :: real
  monthly_expenses :: real
  marketing_spend :: real
  team_size :: int
  average_salary :: real
  price_per_unit :: real
  units_sold :: int
  runway_months :: real
  last_updated :: datetime
  metadata :: "(string \<times> pyval) list"

record UserScenario =
  scenario_id :: string
  company_id :: string
  changes :: "(string \<times> pyval) list"
  timestamp :: datetime

record FinancialAnalysis =
  analysis_id :: string
  scenario_id :: string
  company_id :: string
  original_context :: FinancialContext
  updated_context :: FinancialContext
  impact_analysis :: "(string \<times> real) list"
  summary :: string
  created_at :: datetime

record RAGAgent =
  context_store :: "(string \<times> FinancialContext) list"
  scenario_store :: "(string \<times> UserScenario) list"
  analysis_store :: "(string \<times> FinancialAnalysis) list"
  vector_store :: VectorStore

text \<open>
  What the engine takes from outside the repository: the clock, the random draws of the
  dummy embeddings, the chat completion of the text generation service (the content of
  the first choice, or the message of the exception it raised), Python's number
  formatting, and the conversions pydantic applies to a value that does not already have
  the declared type of its field.
\<close>

datatype fnum = FInt int | FFloat real | FInf

record externals =
  utcnow :: datetime
  rand :: "nat \<Rightarrow> nat \<Rightarrow> real"
  completion :: "string \<Rightarrow> string \<Rightarrow> string + string"
  format_spec :: "string \<Rightarrow> fnum \<Rightarrow> string"
  coerce_str :: "pyval \<Rightarrow> string option"
  coerce_number :: "pyval \<Rightarrow> real option"
  coerce_datetime :: "pyval \<Rightarrow> datetime option"
  coerce_dict :: "pyval \<Rightarrow> (string \<times> pyval) list option"

text \<open>The field names of \<^verbatim>\<open>FinancialContext\<close>, in declaration order.\<close>

definition context_fields :: "string list" where
  "context_fields = [''id'', ''company_id'', ''current_cash'', ''monthly_revenue'',
     ''monthly_expenses'', ''marketing_spend'', ''team_size'', ''average_salary'',
     ''price_per_unit'', ''units_sold'', ''runway_months'', ''last_updated'', ''metadata'']"



text \<open>\<^verbatim>\<open>context.dict()\<close>.\<close>

definition context_dict :: "FinancialContext \<Rightarrow> (string \<times> pyval) list" where
  "context_dict c =
     [(''id'', PStr (id_str c)),
      (''company_id'', PStr (FinancialContext.company_id c)),
      (''current_cash'', PFloat (current_cash c)),
      (''monthly_revenue'', PFloat (monthly_revenue c)),
      (''monthly_expenses'', PFloat (monthly_expenses c)),
      (''marketing_spend'', PFloat (marketing_spend c)),
      (''team_size'', PInt (team_size c)),
      (''average_salary'', PFloat (average_salary c)),
      (''price_per_unit'', PFloat (price_per_unit c)),
      (''units_sold'', PInt (units_sold c)),
      (''runway_months'', PFloat (runway_months c)),
      (''last_updated'', PDatetime (last_updated c)),
      (''metadata'', PDict (metadata c))]"

text \<open>
  The validators of pydantic (version 1) for the declared field types. A value of the
  declared type is kept. \<^verbatim>\<open>int_validator\<close> is \<^verbatim>\<open>int(v)\<close> on a float, which truncates
  towards zero; \<^verbatim>\<open>float_validator\<close> is \<^verbatim>\<open>float(v)\<close> on an integer. The remaining
  conversions are those of \<^typ>\<open>externals\<close>; \<open>None\<close> is the rejection of the value.
\<close>

definition py_int_of_float :: "real \<Rightarrow> int" where
  "py_int_of_float x = (if 0 \<le> x then \<lfloor>x\<rfloor> else \<lceil>x\<rceil>)"

definition str_validator :: "externals \<Rightarrow> pyval \<Rightarrow> string option" where
  "str_validator ext v = (case v of PStr s \<Rightarrow> Some s | _ \<Rightarrow> coerce_str ext v)"

definition float_validator :: "externals \<Rightarrow> pyval \<Rightarrow> real option" where
  "float_validator ext v =
     (case v of
        PFloat x \<Rightarrow> Some x
      | PInt i \<Rightarrow> Some (real_of_int i)
      | PBool b \<Rightarrow> Some (of_bool b)
      | _ \<Rightarrow> coerce_number ext v)"

definition int_validator :: "externals \<Rightarrow> pyval \<Rightarrow> int option" where
  "int_validator ext v =
     (case v of
        PInt i \<Rightarrow> Some i
      | PBool b \<Rightarrow> Some (of_bool b)
      | PFloat x \<Rightarrow> Some (py_int_of_float x)
      | _ \<Rightarrow> map_option py_int_of_float (coerce_number ext v))"

definition datetime_validator :: "externals \<Rightarrow> pyval \<Rightarrow> datetime option" where
  "datetime_validator ext v = (case v of PDatetime t \<Rightarrow> Some t | _ \<Rightarrow> coerce_datetime ext v)"

definition dict_validator :: "externals \<Rightarrow> pyval \<Rightarrow> (string \<times> pyval) list option" where
  "dict_validator ext v = (case v of PDict d \<Rightarrow> Some d | _ \<Rightarrow> coerce_dict ext v)"

text \<open>
  A required field: the entry must be present and pass its validator. The two fields
  with a default, \<^verbatim>\<open>last_updated\<close> and \<^verbatim>\<open>metadata\<close>, take it when the entry is absent.
\<close>

definition required :: "('v \<Rightarrow> 'a option) \<Rightarrow> 'v option \<Rightarrow> 'a option" where
  "required validate entry = (case entry of None \<Rightarrow> None | Some v \<Rightarrow> validate v)"

definition with_default :: "'a \<Rightarrow> ('v \<Rightarrow> 'a option) \<Rightarrow> 'v option \<Rightarrow> 'a option" where
  "with_default d validate entry = (case entry of None \<Rightarrow> Some d | Some v \<Rightarrow> validate v)"

definition rejected :: "string \<Rightarrow> 'a option \<Rightarrow> string list" where
  "rejected name r = (case r of None \<Rightarrow> [name] | Some _ \<Rightarrow> [])"

text \<open>
  \<^verbatim>\<open>FinancialContext(**data)\<close>: every field is validated, and the rejected ones are
  reported together in one \<^verbatim>\<open>ValidationError\<close>.
\<close>

definition FinancialContext_init ::
  "externals \<Rightarrow> (string \<times> pyval) list \<Rightarrow> error + FinancialContext" where
  "FinancialContext_init ext data =
     (let v_id = required (str_validator ext) (map_of data ''id'');
          v_company = required (str_validator ext) (map_of data ''company_id'');
          v_cash = required (float_validator ext) (map_of data ''current_cash'');
          v_revenue = required (float_validator ext) (map_of data ''monthly_revenue'');
          v_expenses = required (float_validator ext) (map_of data ''monthly_expenses'');
          v_marketing = required (float_validator ext) (map_of data ''marketing_spend'');
          v_team = required (int_validator ext) (map_of data ''team_size'');
          v_salary = required (float_validator ext) (map_of data ''average_salary'');
          v_price = required (float_validator ext) (map_of data ''price_per_unit'');
          v_units = required (int_validator ext) (map_of data ''units_sold'');
          v_runway = required (float_validator ext) (map_of data ''runway_months'');
          v_updated = with_default (utcnow ext) (datetime_validator ext)
                        (map_of data ''last_updated'');
          v_metadata = with_default [] (dict_validator ext) (map_of data ''metadata'');
          bad = rejected ''id'' v_id @ rejected ''company_id'' v_company
              @ rejected ''current_cash'' v_cash @ rejected ''monthly_revenue'' v_revenue
              @ rejected ''monthly_expenses'' v_expenses
              @ rejected ''marketing_spend'' v_marketing @ rejected ''team_size'' v_team
              @ rejected ''average_salary'' v_salary @ rejected ''price_per_unit'' v_price
              @ rejected ''units_sold'' v_units @ rejected ''runway_months'' v_runway
              @ rejected ''last_updated'' v_updated @ rejected ''metadata'' v_metadata
      in if bad \<noteq> [] then Inl (ValidationError bad)
         else Inr \<lparr>id_str = the v_id,
                   company_id = the v_company,
                   current_cash = the v_cash,
                   monthly_revenue = the v_revenue,
                   monthly_expenses = the v_expenses,
                   marketing_spend = the v_marketing,
                   team_size = the v_team,
                   average_salary = the v_salary,
                   price_per_unit = the v_price,
                   units_sold = the v_units,
                   runway_months = the v_runway,
                   last_updated = the v_updated,
                   metadata = the v_metadata\<rparr>)"

text \<open>
  The loop \<^verbatim>\<open>for key, value in scenario.changes.items()\<close> of \<^verbatim>\<open>analyze_scenario\<close>, over
  the working copy \<^verbatim>\<open>updated_data\<close>.
\<close>

fun merge_changes ::
  "(string \<times> pyval) list \<Rightarrow> (string \<times> pyval) list \<Rightarrow> error + (string \<times> pyval) list" where
  "merge_changes updated_data [] = Inr updated_data"
| "merge_changes updated_data ((key, v) # rest) =
     (case map_of updated_data key of
        None \<Rightarrow> merge_changes updated_data rest
      | Some current \<Rightarrow>
          if is_number current
          then (case py_iadd current v of
                  Inl e \<Rightarrow> Inl e
                | Inr added \<Rightarrow> merge_changes (AList.update key added updated_data) rest)
          else merge_changes (AList.update key v updated_data) rest)"

text \<open>\<^verbatim>\<open>_calculate_impact\<close>.\<close>

definition calculate_impact ::
  "FinancialContext \<Rightarrow> FinancialContext \<Rightarrow> (string \<times> real) list" where
  "calculate_impact original updated =
     [(''revenue_change'', monthly_revenue updated - monthly_revenue original),
      (''expense_change'', monthly_expenses updated - monthly_expenses original),
      (''marketing_impact'', marketing_spend updated - marketing_spend original),
      (''runway_impact'', runway_months updated - runway_months original),
      (''profit_impact'', (monthly_revenue updated - monthly_expenses updated)
                          - (monthly_revenue original - monthly_expenses original))]"

subsection \<open>Narrative generation\<close>

definition nl :: string where
  "nl = [CHR 0x0A]"

definition rupee :: string where
  "rupee = [CHR 0xE2, CHR 0x82, CHR 0xB9]"

definition indent :: "nat \<Rightarrow> string \<Rightarrow> string" where
  "indent n s = replicate n (CHR '' '') @ s @ nl"

definition SIMILARITY_TOP_K :: int where
  "SIMILARITY_TOP_K = 3"

definition VECTOR_STORE_DIMENSION :: nat where
  "VECTOR_STORE_DIMENSION = 384"

definition system_prompt :: string where
  "system_prompt =
     ''You are an expert financial analyst with deep knowledge of business finance, '' @ nl
     @ indent 12 ''accounting principles, and strategic planning. Your role is to provide:''
     @ indent 12 []
     @ indent 12 ''1. Data-driven financial insights''
     @ indent 12 ''2. Actionable recommendations''
     @ indent 12 ''3. Risk assessment and mitigation''
     @ indent 12 ''4. Industry benchmarks and best practices''
     @ indent 12 ''5. Clear explanations of financial concepts''
     @ indent 12 []
     @ indent 12 ''Always format your response with markdown for better readability. Use tables, bullet points, ''
     @ indent 12 ''and section headers to organize information clearly.''
     @ replicate 12 (CHR '' '')"

definition user_content :: "string \<Rightarrow> string \<Rightarrow> string" where
  "user_content context query =
     ''Context:'' @ nl
     @ indent 4 context
     @ nl
     @ indent 4 (''User Query: '' @ query)
     @ nl
     @ indent 4 ''Please provide a comprehensive financial analysis and recommendations. Include:''
     @ indent 4 ''1. Key insights from the data''
     @ indent 4 ''2. Actionable recommendations''
     @ indent 4 ''3. Potential risks and opportunities''
     @ indent 4 ''4. Relevant financial metrics''
     @ replicate 4 (CHR '' '')"

text \<open>
  \<^verbatim>\<open>OpenLLMRAGAgent.generate_response\<close>. The agent is constructed with a client (the
  constructor raises otherwise), so the re-initialisation branch is not taken. Everything
  after it is inside \<^verbatim>\<open>try\<close>, and \<^verbatim>\<open>except Exception\<close> returns the error message as the
  response.
\<close>

definition generate_response :: "externals \<Rightarrow> VectorStore \<Rightarrow> string \<Rightarrow> string" where
  "generate_response ext store query =
     (case search (rand ext) store query SIMILARITY_TOP_K of
        Inl e \<Rightarrow> ''Error generating response: '' @ str_error e
      | Inr context_docs \<Rightarrow>
          (let context = join nl (map doc_text context_docs)
           in case completion ext system_prompt (user_content context query) of
                Inl message \<Rightarrow> ''Error generating response: '' @ message
              | Inr content \<Rightarrow> py_strip content))"

text \<open>
  The list \<^verbatim>\<open>changes\<close> of \<^verbatim>\<open>_generate_summary\<close>. The revenue percentage divides without
  a guard; the other three test their denominator first.
\<close>

definition py_truediv :: "real \<Rightarrow> real \<Rightarrow> error + real" where
  "py_truediv a b = (if b = 0 then Inl ZeroDivisionError else Inr (a / b))"

definition proposed_changes ::
  "externals \<Rightarrow> FinancialContext \<Rightarrow> FinancialContext \<Rightarrow> error + string list" where
  "proposed_changes ext original updated =
     (case (if monthly_revenue updated \<noteq> monthly_revenue original
            then (let change = monthly_revenue updated - monthly_revenue original
                  in case py_truediv change (monthly_revenue original) of
                       Inl e \<Rightarrow> Inl e
                     | Inr q \<Rightarrow>
                         Inr [''- Revenue: '' @ rupee @ format_spec ext ''+,.2f'' (FFloat change)
                              @ '' ('' @ format_spec ext ''+.1f'' (FFloat (q * 100)) @ ''%)''])
            else Inr []) of
        Inl e \<Rightarrow> Inl e
      | Inr revenue_lines \<Rightarrow>
          (let expense_lines =
                 (if monthly_expenses updated \<noteq> monthly_expenses original
                  then (let change = monthly_expenses updated - monthly_expenses original;
                            pct_change = (if monthly_expenses original \<noteq> 0
                                          then FFloat (change / monthly_expenses original * 100)
                                          else FInf)
                        in [''- Expenses: '' @ rupee @ format_spec ext ''+,.2f'' (FFloat change)
                            @ '' ('' @ format_spec ext ''+.1f'' pct_change @ ''%)''])
                  else []);
               marketing_lines =
                 (if marketing_spend updated \<noteq> marketing_spend original
                  then (let change = marketing_spend updated - marketing_spend original;
                            pct_change = (if marketing_spend original \<noteq> 0
                                          then FFloat (change / marketing_spend original * 100)
                                          else FInf)
                        in [''- Marketing Spend: '' @ rupee
                            @ format_spec ext ''+,.2f'' (FFloat change)
                            @ '' ('' @ format_spec ext ''+.1f'' pct_change @ ''%)''])
                  else []);
               team_lines =
                 (if team_size updated \<noteq> team_size original
                  then (let change = team_size updated - team_size original;
                            pct_change = (if team_size original \<noteq> 0
                                          then FFloat (real_of_int change
                                                       / real_of_int (team_size original) * 100)
                                          else FInf)
                        in [''- Team Size: '' @ format_spec ext ''+,.0f'' (FInt change)
                            @ '' employees ('' @ format_spec ext ''+,.1f'' pct_change @ ''%)''])
                  else [])
           in Inr (revenue_lines @ expense_lines @ marketing_lines @ team_lines)))"

definition impact_value :: "(string \<times> real) list \<Rightarrow> string \<Rightarrow> real" where
  "impact_value impact key = the (map_of impact key)"

definition summary_prompt ::
  "externals \<Rightarrow> FinancialContext \<Rightarrow> FinancialContext \<Rightarrow> (string \<times> real) list \<Rightarrow>
   string list \<Rightarrow> string" where
  "summary_prompt ext original updated impact change_lines =
     nl
     @ indent 8 ''Analyze this financial scenario and provide a detailed summary:''
     @ indent 8 []
     @ indent 8 ''Current Financial Status:''
     @ indent 8 (''- Monthly Revenue: '' @ rupee
                 @ format_spec ext '',.2f'' (FFloat (monthly_revenue original)))
     @ indent 8 (''- Monthly Expenses: '' @ rupee
                 @ format_spec ext '',.2f'' (FFloat (monthly_expenses original)))
     @ indent 8 (''- Current Runway: ''
                 @ format_spec ext ''.1f'' (FFloat (runway_months original)) @ '' months'')
     @ indent 8 (''- Marketing Spend: '' @ rupee
                 @ format_spec ext '',.2f'' (FFloat (marketing_spend original)))
     @ indent 8 (''- Team Size: '' @ format_spec ext [] (FInt (team_size original))
                 @ '' employees'')
     @ indent 8 []
     @ indent 8 ''Proposed Changes:''
     @ replicate 8 (CHR '' '')
     @ (if change_lines \<noteq> [] then join nl change_lines else ''No significant changes'')
     @ nl @ nl @ ''Impact Analysis:'' @ nl
     @ nl
     @ indent 8 (''- Revenue Change: '' @ rupee
                 @ format_spec ext ''+,.2f'' (FFloat (impact_value impact ''revenue_change''))
                 @ '' (''
                 @ format_spec ext ''+.1f''
                     (if monthly_revenue original \<noteq> 0
                      then FFloat (impact_value impact ''revenue_change''
                                   / monthly_revenue original * 100)
                      else FInt 0)
                 @ ''%)'')
     @ indent 8 (''- Expense Change: '' @ rupee
                 @ format_spec ext ''+,.2f'' (FFloat (impact_value impact ''expense_change''))
                 @ '' (''
                 @ format_spec ext ''+.1f''
                     (if monthly_expenses original \<noteq> 0
                      then FFloat (impact_value impact ''expense_change''
                                   / monthly_expenses original * 100)
                      else FInt 0)
                 @ ''%)'')
     @ indent 8 (''- New Runway: '' @ format_spec ext ''.1f'' (FFloat (runway_months updated))
                 @ '' months (''
                 @ format_spec ext ''+.1f'' (FFloat (impact_value impact ''runway_impact''))
                 @ '' months)'')
     @ indent 8 (''- Monthly Profit Impact: '' @ rupee
                 @ format_spec ext ''+,.2f'' (FFloat (impact_value impact ''profit_impact'')))
     @ replicate 8 (CHR '' '')"

definition summary_query :: "string \<Rightarrow> string" where
  "summary_query prompt =
     nl
     @ indent 12 prompt
     @ indent 12 []
     @ indent 12 ''Please provide a detailed financial analysis including:''
     @ indent 12 ''1. Key observations about the proposed changes''
     @ indent 12 ''2. Impact on financial health''
     @ indent 12 ''3. Potential risks and opportunities''
     @ indent 12 ''4. Data-driven recommendations''
     @ indent 12 []
     @ indent 12 ''Format the response in markdown with clear sections.''
     @ replicate 12 (CHR '' '')"

text \<open>\<^verbatim>\<open>_generate_summary\<close>.\<close>

definition generate_summary ::
  "externals \<Rightarrow> VectorStore \<Rightarrow> FinancialContext \<Rightarrow> FinancialContext \<Rightarrow>
   (string \<times> real) list \<Rightarrow> error + string" where
  "generate_summary ext store original updated impact =
     (case proposed_changes ext original updated of
        Inl e \<Rightarrow> Inl e
      | Inr change_lines \<Rightarrow>
          (let prompt = summary_prompt ext original updated impact change_lines;
               analysis = generate_response ext store (summary_query prompt)
           in Inr (''# Financial Impact Analysis'' @ nl @ nl @ analysis)))"

subsection \<open>The agent's operations\<close>

definition financial_knowledge :: "Document list" where
  "financial_knowledge = map (\<lambda>t. \<lparr>doc_text = t, embedding = None\<rparr>)
     [''A company's runway is calculated as cash balance divided by monthly burn rate.'',
      ''Increasing marketing spend typically leads to higher customer acquisition but reduces short-term profitability.'',
      ''Hiring more employees increases fixed costs but can drive revenue growth if managed properly.'',
      ''Reducing expenses improves short-term cash flow but may impact long-term growth if critical areas are cut.'',
      ''Pricing strategy significantly impacts both revenue and customer acquisition costs.'']"

text \<open>
  \<^verbatim>\<open>RAGAgent.__init__\<close> with \<^verbatim>\<open>_initialize_knowledge_base\<close>. The embeddings that
  \<^verbatim>\<open>OpenLLMRAGAgent.add_documents\<close> attaches to the documents come from the embedding
  model, \<open>encode\<close>.
\<close>

definition RAGAgent_init :: "externals \<Rightarrow> (string \<Rightarrow> real list) \<Rightarrow> RAGAgent" where
  "RAGAgent_init ext encode =
     \<lparr>context_store = [],
      scenario_store = [],
      analysis_store = [],
      vector_store = add_documents (rand ext)
         (map (\<lambda>d. d\<lparr>embedding := Some (encode (doc_text d))\<rparr>) financial_knowledge)
         (VectorStore_init VECTOR_STORE_DIMENSION)\<rparr>"

definition add_financial_context :: "RAGAgent \<Rightarrow> FinancialContext \<Rightarrow> string \<times> RAGAgent" where
  "add_financial_context agent context =
     (id_str context,
      agent\<lparr>context_store :=
        AList.update (FinancialContext.company_id context) context (context_store agent)\<rparr>)"

definition get_financial_context :: "RAGAgent \<Rightarrow> string \<Rightarrow> FinancialContext option" where
  "get_financial_context agent company = map_of (context_store agent) company"

definition create_scenario ::
  "externals \<Rightarrow> RAGAgent \<Rightarrow> string \<Rightarrow> (string \<times> pyval) list \<Rightarrow> string \<times> RAGAgent" where
  "create_scenario ext agent company chg =
     (let sid = ''scenario_'' @ str_nat (length (scenario_store agent) + 1);
          scenario = \<lparr>UserScenario.scenario_id = sid, UserScenario.company_id = company,
                      changes = chg, timestamp = utcnow ext\<rparr>
      in (sid, agent\<lparr>scenario_store := AList.update sid scenario (scenario_store agent)\<rparr>))"

text \<open>
  \<^verbatim>\<open>RAGAgent.analyze_scenario\<close>: the analysis and the agent after the call, or the
  exception raised (the agent is then as before).
\<close>

definition analyze_scenario ::
  "externals \<Rightarrow> RAGAgent \<Rightarrow> string \<Rightarrow> error + (FinancialAnalysis \<times> RAGAgent)" where
  "analyze_scenario ext agent sid =
     (case map_of (scenario_store agent) sid of
        None \<Rightarrow> Inl (ValueError (''Scenario '' @ sid @ '' not found''))
      | Some scenario \<Rightarrow>
     (case get_financial_context agent (UserScenario.company_id scenario) of
        None \<Rightarrow> Inl (ValueError (''No financial context found for company ''
                                  @ UserScenario.company_id scenario))
      | Some context \<Rightarrow>
     (case merge_changes (context_dict context) (changes scenario) of
        Inl e \<Rightarrow> Inl e
      | Inr updated_data \<Rightarrow>
     (case FinancialContext_init ext updated_data of
        Inl e \<Rightarrow> Inl e
      | Inr updated \<Rightarrow>
     (let impact = calculate_impact context updated
      in case generate_summary ext (vector_store agent) context updated impact of
        Inl e \<Rightarrow> Inl e
      | Inr text_summary \<Rightarrow>
     (let aid = ''analysis_'' @ str_nat (length (analysis_store agent) + 1);
          analysis = \<lparr>analysis_id = aid,
                      FinancialAnalysis.scenario_id = sid,
                      FinancialAnalysis.company_id = UserScenario.company_id scenario,
                      original_context = context,
                      updated_context = updated,
                      impact_analysis = impact,
                      summary = text_summary,
                      created_at = utcnow ext\<rparr>
      in Inr (analysis,
              agent\<lparr>analysis_store := AList.update aid analysis (analysis_store agent)\<rparr>)))))))"

text \<open>
  The handler \<^verbatim>\<open>GET /analyze/{scenario_id}\<close> of \<^verbatim>\<open>app/api/endpoints/rag.py\<close>:
  \<^verbatim>\<open>except ValueError\<close> answers 404, any other exception 500, each with \<^verbatim>\<open>str(e)\<close> as
  detail. The conversion of the time stamps of a successful result to ISO strings is left
  out.
\<close>

datatype response = Success FinancialAnalysis | HTTPException nat string

definition analyze_scenario_endpoint ::
  "externals \<Rightarrow> RAGAgent \<Rightarrow> string \<Rightarrow> response \<times> RAGAgent" where
  "analyze_scenario_endpoint ext agent sid =
     (case analyze_scenario ext agent sid of
        Inr (analysis, agent') \<Rightarrow> (Success analysis, agent')
      | Inl e \<Rightarrow> (if is_ValueError e then (HTTPException 404 (str_error e), agent)
                 else (HTTPException 500 (str_error e), agent)))"

text \<open>
  The agents a process can hold: a fresh one, and whatever the three operations make of
  one. The changes of a scenario are a dictionary, so no key occurs twice.
\<close>

inductive reachable :: "RAGAgent \<Rightarrow> bool" where
  reachable_init: "reachable (RAGAgent_init ext encode)"
| reachable_context: "reachable agent \<Longrightarrow> reachable (snd (add_financial_context agent context))"
| reachable_scenario:
    "reachable agent \<Longrightarrow> distinct (map fst chg) \<Longrightarrow>
     reachable (snd (create_scenario ext agent company chg))"
| reachable_analysis:
    "reachable agent \<Longrightarrow> analyze_scenario ext agent sid = Inr (analysis, agent') \<Longrightarrow>
     reachable agent'"

subsection \<open>Sample data\<close>

definition sample_context :: FinancialContext where
  "sample_context =
     \<lparr>id_str = ''test_ctx_1'', company_id = ''test_company_123'',
      current_cash = 1000000, monthly_revenue = 500000, monthly_expenses = 300000,
      marketing_spend = 50000, team_size = 10, average_salary = 50000,
      price_per_unit = 100, units_sold = 5000, runway_months = 5,
      last_updated = 0, metadata = []\<rparr>"

definition sample_externals :: "(string + string) \<Rightarrow> externals" where
  "sample_externals outcome =
     \<lparr>utcnow = 1,
      rand = (\<lambda>i j. 0),
      completion = (\<lambda>s u. outcome),
      format_spec = (\<lambda>spec x. []),
      coerce_str = (\<lambda>v. None),
      coerce_number = (\<lambda>v. None),
      coerce_datetime = (\<lambda>v. None),
      coerce_dict = (\<lambda>v. None)\<rparr>"

definition sample_agent :: "FinancialContext \<Rightarrow> (string \<times> pyval) list \<Rightarrow> RAGAgent" where
  "sample_agent context chg =
     snd (create_scenario (sample_externals (Inr [])) 
            (snd (add_financial_context
                    (RAGAgent_init (sample_externals (Inr [])) (\<lambda>t. [])) context))
            (FinancialContext.company_id context) chg)"

definition orphan_agent :: RAGAgent where
  "orphan_agent =
     snd (create_scenario (sample_externals (Inr []))
            (RAGAgent_init (sample_externals (Inr [])) (\<lambda>t. [])) ''ghost'' [])"

definition zero_revenue_context :: FinancialContext where
  "zero_revenue_context = sample_context\<lparr>monthly_revenue := 0\<rparr>"

definition bogus_changes :: "(string \<times> pyval) list" where
  "bogus_changes = [(''team_size'', PInt 2), (''bogus'', PInt 1)]"


section \<open>Properties of binary64 arithmetic\<close>

lemma round_half_even_of_int: "round_half_even (real_of_int k) = k"
  by (simp add: round_half_even_def)

text \<open>An integer of magnitude up to \<open>2\<^sup>5\<^sup>3\<close> is a binary64 number: rounding keeps it.\<close>

lemma binary64_exact:
  assumes "x \<in> \<int>" and "\<bar>x\<bar> \<le> 2 ^ 53"
  shows "binary64 x = Finite x"
proof (cases "x = 0")
  case True
  then show ?thesis by (simp add: binary64_def)
next
  case False
  from assms(1) obtain i where i: "x = real_of_int i" by (auto elim: Ints_cases)
  with False have "i \<noteq> 0" by simp
  then have ge1: "1 \<le> \<bar>x\<bar>" unfolding i by simp
  define E where "E = \<lfloor>log 2 \<bar>x\<bar>\<rfloor>"
  have E0: "0 \<le> E" unfolding E_def using ge1 by simp
  have "log 2 \<bar>x\<bar> \<le> 53"
    using assms(2) ge1 by (simp add: log_le_iff powr_numeral)
  then have E53: "E \<le> 53" unfolding E_def by (simp add: floor_le_iff)
  have e: "max (E - 52) (- 1074) = E - 52" using E0 by simp
  have "\<exists>k. x / 2 powi (E - 52) = real_of_int k"
  proof (cases "E \<le> 52")
    case True
    have "x / 2 powi (E - 52) = x * 2 ^ nat (52 - E)"
      using True by (simp add: power_int_def field_simps)
    also have "\<dots> = real_of_int (i * 2 ^ nat (52 - E))" unfolding i by simp
    finally show ?thesis by blast
  next
    case False
    with E53 have E: "E = 53" by simp
    have "real_of_int E \<le> log 2 \<bar>x\<bar>" unfolding E_def by simp
    then have "2 ^ 53 \<le> \<bar>x\<bar>" using ge1 unfolding E by (simp add: le_log_iff powr_numeral)
    with assms(2) have "\<bar>x\<bar> = 2 ^ 53" by simp
    then have "\<bar>i\<bar> = 2 ^ 53" unfolding i by (metis of_int_abs of_int_eq_numeral_power_cancel_iff)
    then have "even i" by (metis even_abs_add_iff even_add even_numeral even_power zero_less_numeral)
    then obtain k where "i = 2 * k" by (auto elim: evenE)
    then have "x / 2 powi (E - 52) = real_of_int k" unfolding i E by simp
    then show ?thesis by blast
  qed
  then obtain k where k: "x / 2 powi (E - 52) = real_of_int k" by blast
  have p: "(2::real) powi (E - 52) \<noteq> 0" by simp
  have y: "real_of_int k * 2 powi (E - 52) = x"
    using k p by (metis nonzero_divide_eq_eq)
  have small: "\<not> (2::real) ^ 1024 \<le> \<bar>x\<bar>"
  proof -
    have "(2::real) ^ 53 < 2 ^ 1024" by (rule power_strict_increasing) simp_all
    with assms(2) show ?thesis by linarith
  qed
  show ?thesis
    using False small
    by (simp add: binary64_def Let_def E_def[symmetric] e k round_half_even_of_int y)
qed

lemma le_zero_not_gt_zero: "le_zero d \<Longrightarrow> \<not> gt_zero d"
  by (cases d) auto

section \<open>Properties of the forecast simulator\<close>

lemma balance_after_step:
  "1 \<le> i \<Longrightarrow>
   balance_after sc rates i = fadd (balance_after sc rates (i - 1)) (net_of sc rates)"
proof -
  assume "1 \<le> i"
  then have "nat i = Suc (nat (i - 1))" by simp
  then show ?thesis by (simp add: balance_after_def)
qed

lemma balance_after_0: "balance_after sc rates 0 = ScenarioInput.current_cash sc"
  by (simp add: balance_after_def)

lemma runway_over_Cons:
  "runway_over sc rates r (j # js)
     = runway_over sc rates (if gt_zero (balance_after sc rates j) then j else r) js"
  by (simp add: runway_over_def)

lemma forecast_loop_step:
  assumes "1 \<le> i"
  shows "forecast_loop sc (fst rates) (snd rates) (i # ms)
           (md, balance_after sc rates (i - 1), r) =
     (if le_zero (balance_after sc rates i)
      then (md @ [entry_at sc rates i], balance_after sc rates i, r)
      else forecast_loop sc (fst rates) (snd rates) ms
             (md @ [entry_at sc rates i], balance_after sc rates i,
              if gt_zero (balance_after sc rates i) then i else r))"
  using le_zero_not_gt_zero[of "balance_after sc rates i"]
  by (simp add: Let_def balance_after_step[OF assms] entry_at_def net_of_def)

lemma forecast_loop_run:
  "1 \<le> i \<Longrightarrow> \<forall>j. i \<le> j \<and> j \<le> N \<longrightarrow> \<not> le_zero (balance_after sc rates j) \<Longrightarrow>
   forecast_loop sc (fst rates) (snd rates) [i..N] (md, balance_after sc rates (i - 1), r)
   = (md @ map (entry_at sc rates) [i..N],
      balance_after sc rates (max (i - 1) N),
      runway_over sc rates r [i..N])"
proof (induction "nat (N + 1 - i)" arbitrary: i md r)
  case 0
  then have lt: "N < i" by simp
  then have "max (i - 1) N = i - 1" by simp
  with lt show ?case by (simp add: runway_over_def)
next
  case (Suc k)
  then have le: "i \<le> N" by simp
  have up: "[i..N] = i # [i + 1..N]" using le by (simp add: upto_rec1)
  have pos: "\<not> le_zero (balance_after sc rates i)" using Suc.prems le by simp
  have k: "k = nat (N + 1 - (i + 1))" using Suc.hyps(2) by simp
  have i1: "1 \<le> i + 1" using Suc.prems(1) by simp
  have IH: "forecast_loop sc (fst rates) (snd rates) [i + 1..N]
      (md @ [entry_at sc rates i], balance_after sc rates (i + 1 - 1),
       if gt_zero (balance_after sc rates i) then i else r)
   = ((md @ [entry_at sc rates i]) @ map (entry_at sc rates) [i + 1..N],
      balance_after sc rates (max (i + 1 - 1) N),
      runway_over sc rates (if gt_zero (balance_after sc rates i) then i else r) [i + 1..N])"
    using Suc.hyps(1)[OF k i1] Suc.prems(2) by simp
  have mx: "max i N = N" "max (i - 1) N = N" using le by simp_all
  show ?case
    unfolding up forecast_loop_step[OF Suc.prems(1)] runway_over_Cons
    using pos IH by (simp add: mx)
qed

lemma forecast_loop_stop:
  "1 \<le> i \<Longrightarrow> i \<le> m \<Longrightarrow> m \<le> N \<Longrightarrow>
   \<forall>j. i \<le> j \<and> j < m \<longrightarrow> \<not> le_zero (balance_after sc rates j) \<Longrightarrow>
   le_zero (balance_after sc rates m) \<Longrightarrow>
   forecast_loop sc (fst rates) (snd rates) [i..N] (md, balance_after sc rates (i - 1), r)
   = (md @ map (entry_at sc rates) [i..m],
      balance_after sc rates m,
      runway_over sc rates r [i..m])"
proof (induction "nat (m - i)" arbitrary: i md r)
  case 0
  then have im: "i = m" by simp
  have up: "[i..N] = i # [i + 1..N]" using 0 by (simp add: upto_rec1)
  show ?case
    unfolding up forecast_loop_step[OF "0.prems"(1)]
    using 0 im le_zero_not_gt_zero[of "balance_after sc rates m"]
    by (simp add: runway_over_def)
next
  case (Suc k)
  then have lt: "i < m" by simp
  have up: "[i..N] = i # [i + 1..N]" using lt Suc.prems by (simp add: upto_rec1)
  have up2: "[i..m] = i # [i + 1..m]" using lt by (simp add: upto_rec1)
  have pos: "\<not> le_zero (balance_after sc rates i)" using Suc.prems lt by simp
  have k: "k = nat (m - (i + 1))" using Suc.hyps(2) by simp
  have i1: "1 \<le> i + 1" "i + 1 \<le> m" using Suc.prems(1) lt by simp_all
  have IH: "forecast_loop sc (fst rates) (snd rates) [i + 1..N]
      (md @ [entry_at sc rates i], balance_after sc rates (i + 1 - 1),
       if gt_zero (balance_after sc rates i) then i else r)
   = ((md @ [entry_at sc rates i]) @ map (entry_at sc rates) [i + 1..m],
      balance_after sc rates m,
      runway_over sc rates (if gt_zero (balance_after sc rates i) then i else r) [i + 1..m])"
    using Suc.hyps(1)[OF k i1 Suc.prems(3)] Suc.prems(4,5) by simp
  show ?case
    unfolding up up2 forecast_loop_step[OF Suc.prems(1)] runway_over_Cons
    using pos IH by simp
qed

lemma runway_over_last:
  "i \<le> n \<Longrightarrow> gt_zero (balance_after sc rates n) \<Longrightarrow> runway_over sc rates r [i..n] = n"
  by (simp add: upto_rec2 runway_over_def)

lemma runway_over_none:
  "i \<le> n \<Longrightarrow> \<not> gt_zero (balance_after sc rates n) \<Longrightarrow>
   runway_over sc rates r [i..n] = runway_over sc rates r [i..n - 1]"
  by (simp add: upto_rec2 runway_over_def)

lemma calculate_runway_raises:
  "scenario_rates sc = Inl e \<Longrightarrow> calculate_runway s t u sc = (Inl e, u + 1)"
  by (auto simp: scenario_rates_def calculate_runway_def split: sum.splits)

lemma calculate_runway_loop:
  assumes "scenario_rates sc = Inr rates"
  shows "calculate_runway s t u sc =
     (case forecast_loop sc (fst rates) (snd rates) [1 .. months_to_forecast sc]
             ([], balance_after sc rates (1 - 1), 0) of
        (monthly_data, current_balance, months_of_runway) \<Rightarrow>
          (Inr \<lparr>ScenarioResult.scenario_id = ''scn_'' @ s,
                ScenarioResult.timestamp = t,
                input = sc,
                monthly_forecast = monthly_data,
                total_months_of_runway = months_of_runway,
                final_cash_balance = current_balance\<rparr>,
           u + 1))"
  using assms
  by (auto simp: scenario_rates_def calculate_runway_def balance_after_0 Let_def
      split: sum.splits)

lemma calculate_runway_never_stops:
  assumes "scenario_rates sc = Inr rates"
    and "\<forall>j. 1 \<le> j \<and> j \<le> months_to_forecast sc \<longrightarrow> \<not> le_zero (balance_after sc rates j)"
  shows "fst (calculate_runway s t u sc) =
     Inr \<lparr>ScenarioResult.scenario_id = ''scn_'' @ s,
          ScenarioResult.timestamp = t,
          input = sc,
          monthly_forecast = map (entry_at sc rates) [1 .. months_to_forecast sc],
          total_months_of_runway = runway_over sc rates 0 [1 .. months_to_forecast sc],
          final_cash_balance = balance_after sc rates (max 0 (months_to_forecast sc))\<rparr>"
  unfolding calculate_runway_loop[OF assms(1)]
    forecast_loop_run[OF order_refl assms(2), of "[]" 0]
  by simp

lemma calculate_runway_stops:
  assumes "scenario_rates sc = Inr rates"
    and "1 \<le> m" and "m \<le> months_to_forecast sc"
    and "\<forall>j. 1 \<le> j \<and> j < m \<longrightarrow> \<not> le_zero (balance_after sc rates j)"
    and "le_zero (balance_after sc rates m)"
  shows "fst (calculate_runway s t u sc) =
     Inr \<lparr>ScenarioResult.scenario_id = ''scn_'' @ s,
          ScenarioResult.timestamp = t,
          input = sc,
          monthly_forecast = map (entry_at sc rates) [1 .. m],
          total_months_of_runway = runway_over sc rates 0 [1 .. m],
          final_cash_balance = balance_after sc rates m\<rparr>"
  unfolding calculate_runway_loop[OF assms(1)]
    forecast_loop_stop[OF order_refl assms(2,3,4,5), of "[]" 0]
  by simp

lemma gt_zero_not_le_zero: "gt_zero d \<Longrightarrow> \<not> le_zero d"
  by (cases d) auto

text \<open>
  Adding an integer net to an integer cash stays exact as long as the partial sums are
  of magnitude at most \<open>2\<^sup>5\<^sup>3\<close>.
\<close>

lemma running_balance_int:
  "\<forall>k \<le> j. \<bar>c + int k * n\<bar> \<le> 2 ^ 53 \<Longrightarrow>
   running_balance (Finite (real_of_int c)) (Finite (real_of_int n)) j
     = Finite (real_of_int (c + int j * n))"
proof (induction j)
  case 0
  then show ?case by simp
next
  case (Suc j)
  then have IH: "running_balance (Finite (real_of_int c)) (Finite (real_of_int n)) j
     = Finite (real_of_int (c + int j * n))" by simp
  have b: "\<bar>c + int (Suc j) * n\<bar> \<le> 2 ^ 53" using Suc.prems by blast
  have s: "real_of_int (c + int j * n) + real_of_int n = real_of_int (c + int (Suc j) * n)"
    by (simp add: algebra_simps)
  have r: "\<bar>real_of_int (c + int (Suc j) * n)\<bar> \<le> 2 ^ 53"
    using b by (metis of_int_abs of_int_le_numeral_power_cancel_iff)
  show ?case
    unfolding running_balance.simps IH fadd.simps s
  proof (rule binary64_exact)
    show "real_of_int (c + int (Suc j) * n) \<in> \<int>" by (rule Ints_of_int)
    show "\<bar>real_of_int (c + int (Suc j) * n)\<bar> \<le> 2 ^ 53" by (rule r)
  qed
qed

lemma insolvent_rates: "scenario_rates (insolvent_input n) = Inr (Finite 5000, Finite 0)"
  by (simp add: scenario_rates_def insolvent_input_def float_of_int_def binary64_exact)

lemma insolvent_net: "net_of (insolvent_input n) (Finite 5000, Finite 0) = Finite (- 1000)"
  by (simp add: net_of_def insolvent_input_def fsub_def binary64_exact)

lemma insolvent_balance:
  assumes "0 \<le> j" and "j \<le> 20"
  shows "balance_after (insolvent_input n) (Finite 5000, Finite 0) j
           = Finite (10000 - 1000 * real_of_int j)"
proof -
  have "\<forall>k \<le> nat j. \<bar>10000 + int k * (- 1000)\<bar> \<le> (2::int) ^ 53"
    using assms by auto
  from running_balance_int[OF this]
  have "running_balance (Finite 10000) (Finite (- 1000)) (nat j)
      = Finite (real_of_int (10000 + int (nat j) * (- 1000)))" by simp
  moreover have "ScenarioInput.current_cash (insolvent_input n) = Finite 10000"
    by (simp add: insolvent_input_def)
  ultimately show ?thesis
    unfolding balance_after_def insolvent_net using assms by (simp add: algebra_simps)
qed

lemma solvent_rates: "scenario_rates (solvent_input n) = Inr (Finite 8000, Finite 0)"
  by (simp add: scenario_rates_def solvent_input_def float_of_int_def binary64_exact)

lemma solvent_net: "net_of (solvent_input n) (Finite 8000, Finite 0) = Finite 3000"
  by (simp add: net_of_def solvent_input_def fsub_def binary64_exact)

lemma solvent_balance:
  assumes "0 \<le> j" and "j \<le> 20"
  shows "balance_after (solvent_input n) (Finite 8000, Finite 0) j
           = Finite (1000 + 3000 * real_of_int j)"
proof -
  have "\<forall>k \<le> nat j. \<bar>1000 + int k * 3000\<bar> \<le> (2::int) ^ 53"
    using assms by auto
  from running_balance_int[OF this]
  have "running_balance (Finite 1000) (Finite 3000) (nat j)
      = Finite (real_of_int (1000 + int (nat j) * 3000))" by simp
  moreover have "ScenarioInput.current_cash (solvent_input n) = Finite 1000"
    by (simp add: solvent_input_def)
  ultimately show ?thesis
    unfolding balance_after_def solvent_net using assms by (simp add: algebra_simps)
qed

lemma insolvent_stops_at_10:
  assumes "10 \<le> n"
  shows "fst (calculate_runway s t u (insolvent_input n)) =
     Inr \<lparr>ScenarioResult.scenario_id = ''scn_'' @ s,
          ScenarioResult.timestamp = t,
          input = insolvent_input n,
          monthly_forecast = map (entry_at (insolvent_input n) (Finite 5000, Finite 0)) [1 .. 10],
          total_months_of_runway = 9,
          final_cash_balance = Finite 0\<rparr>"
proof -
  let ?sc = "insolvent_input n" and ?rates = "(Finite 5000, Finite 0)"
  have h: "\<forall>j. 1 \<le> j \<and> j < 10 \<longrightarrow> \<not> le_zero (balance_after ?sc ?rates j)"
    by (simp add: insolvent_balance)
  have b10: "balance_after ?sc ?rates 10 = Finite 0"
    and b9: "balance_after ?sc ?rates 9 = Finite 1000"
    by (simp_all add: insolvent_balance)
  have l: "le_zero (balance_after ?sc ?rates 10)" unfolding b10 by simp
  have n: "10 \<le> months_to_forecast ?sc" using assms by (simp add: insolvent_input_def)
  have r: "runway_over ?sc ?rates 0 [1 .. 10] = 9"
    using runway_over_none[of 1 10 ?sc ?rates 0] runway_over_last[of 1 9 ?sc ?rates 0]
    by (simp add: b10 b9)
  show ?thesis
    using calculate_runway_stops[OF insolvent_rates _ n h l, of s t u]
    by (simp add: r b10)
qed

lemma insolvent_entries:
  "map month (map (entry_at (insolvent_input n) (Finite 5000, Finite 0)) [1 .. 10])
     = [1, 2, 3, 4, 5, 6, 7, 8, 9, 10]"
  "map balance (map (entry_at (insolvent_input n) (Finite 5000, Finite 0)) [1 .. 10])
     = [Finite 9000, Finite 8000, Finite 7000, Finite 6000, Finite 5000, Finite 4000,
        Finite 3000, Finite 2000, Finite 1000, Finite 0]"
  by (simp_all add: upto.simps entry_at_def insolvent_balance)

lemma solvent_runs_6:
  "fst (calculate_runway s t u (solvent_input 6)) =
     Inr \<lparr>ScenarioResult.scenario_id = ''scn_'' @ s,
          ScenarioResult.timestamp = t,
          input = solvent_input 6,
          monthly_forecast = map (entry_at (solvent_input 6) (Finite 8000, Finite 0)) [1 .. 6],
          total_months_of_runway = 6,
          final_cash_balance = Finite 19000\<rparr>"
proof -
  let ?sc = "solvent_input 6" and ?rates = "(Finite 8000, Finite 0)"
  have n: "months_to_forecast ?sc = 6" by (simp add: solvent_input_def)
  have h: "\<forall>j. 1 \<le> j \<and> j \<le> months_to_forecast ?sc \<longrightarrow> \<not> le_zero (balance_after ?sc ?rates j)"
    unfolding n
  proof (intro allI impI)
    fix j :: int assume j: "1 \<le> j \<and> j \<le> 6"
    then have "balance_after ?sc ?rates j = Finite (1000 + 3000 * real_of_int j)"
      by (simp add: solvent_balance)
    moreover have "0 < 1000 + 3000 * real_of_int j" using j by simp
    ultimately show "\<not> le_zero (balance_after ?sc ?rates j)" by simp
  qed
  have b6: "balance_after ?sc ?rates 6 = Finite 19000" by (simp add: solvent_balance)
  have r: "runway_over ?sc ?rates 0 [1 .. 6] = 6"
    using runway_over_last[of 1 6 ?sc ?rates 0] by (simp add: b6)
  show ?thesis
    using calculate_runway_never_stops[OF solvent_rates h, of s t u]
    by (simp add: n r b6)
qed

lemma solvent_negative_horizon:
  "fst (calculate_runway s t u (solvent_input (- 3))) =
     Inr \<lparr>ScenarioResult.scenario_id = ''scn_'' @ s,
          ScenarioResult.timestamp = t,
          input = solvent_input (- 3),
          monthly_forecast = [],
          total_months_of_runway = 0,
          final_cash_balance = Finite 1000\<rparr>"
proof -
  let ?sc = "solvent_input (- 3)" and ?rates = "(Finite 8000, Finite 0)"
  have n: "months_to_forecast ?sc = - 3" by (simp add: solvent_input_def)
  have h: "\<forall>j. 1 \<le> j \<and> j \<le> months_to_forecast ?sc \<longrightarrow> \<not> le_zero (balance_after ?sc ?rates j)"
    unfolding n by auto
  show ?thesis
    using calculate_runway_never_stops[OF solvent_rates h, of s t u]
    by (simp add: n runway_over_def balance_after_0 solvent_input_def)
qed

text \<open>
  C2 (as stated, general part): the loop stops the first month the balance is not
  positive, and this leaves the forecast shorter than the horizon. The second half fails
  when the first insolvent month is the horizon itself: with the horizon set to 10 the
  loop stops at month 10 on a zero balance and the forecast has all 10 entries.
\<close>

theorem C2_shorter_counterexample:
  "map_sum (\<lambda>e. e)
     (\<lambda>r. (le_zero (final_cash_balance r),
            int (length (monthly_forecast r)) < months_to_forecast (insolvent_input 10)))
     (fst (calculate_runway [] [] 0 (insolvent_input 10)))
   = Inr (True, False)"
proof -
  have n: "months_to_forecast (insolvent_input 10) = 10" by (simp add: insolvent_input_def)
  have len: "length [1 .. (10::int)] = 10" by (simp add: upto.simps)
  have r: "fst (calculate_runway [] [] 0 (insolvent_input 10)) =
     Inr \<lparr>ScenarioResult.scenario_id = ''scn_'' @ [],
          ScenarioResult.timestamp = [],
          input = insolvent_input 10,
          monthly_forecast = map (entry_at (insolvent_input 10) (Finite 5000, Finite 0)) [1 .. 10],
          total_months_of_runway = 9,
          final_cash_balance = Finite 0\<rparr>"
    by (rule insolvent_stops_at_10) simp
  show ?thesis unfolding r n by (simp add: len)
qed

text \<open>
  C2 (amended): for cash 10000, revenue 5000, expenses 6000, no hires, no marketing, no
  price increase and a horizon of 12, the balance falls by 1000 each month, the loop stops
  at month 10 with balance 0, the forecast has 10 entries and the runway is 9. In general,
  when the scenario's rates are computed without an exception and \<open>m\<close> is the first month
  within the horizon \<open>N\<close> at which the balance the loop accumulates is \<open>\<le> 0\<close>, the
  forecast has exactly the entries of months 1 to \<open>m\<close> with the accumulated balances,
  the final balance is that of month \<open>m\<close>, the forecast is shorter than \<open>N\<close> exactly when
  \<open>m < N\<close>, and the runway is \<open>m - 1\<close> when \<open>m = 1\<close> or the balance of month \<open>m - 1\<close>
  is positive.
\<close>

theorem C2_insolvency_stops_loop:
  "map_sum (\<lambda>e. e)
     (\<lambda>r. (map month (monthly_forecast r), map balance (monthly_forecast r),
            length (monthly_forecast r), total_months_of_runway r, final_cash_balance r))
     (fst (calculate_runway s t u (insolvent_input 12)))
   = Inr ([1, 2, 3, 4, 5, 6, 7, 8, 9, 10],
          [Finite 9000, Finite 8000, Finite 7000, Finite 6000, Finite 5000, Finite 4000,
           Finite 3000, Finite 2000, Finite 1000, Finite 0],
          10, 9, Finite 0)
   \<and> (scenario_rates sc = Inr rates
       \<and> 1 \<le> m \<and> m \<le> months_to_forecast sc
       \<and> (\<forall>j. 1 \<le> j \<and> j < m \<longrightarrow> \<not> le_zero (balance_after sc rates j))
       \<and> le_zero (balance_after sc rates m)
       \<longrightarrow> (\<exists>r. fst (calculate_runway s t u sc) = Inr r
            \<and> map month (monthly_forecast r) = [1 .. m]
            \<and> map balance (monthly_forecast r) = map (balance_after sc rates) [1 .. m]
            \<and> int (length (monthly_forecast r)) = m
            \<and> final_cash_balance r = balance_after sc rates m
            \<and> (int (length (monthly_forecast r)) < months_to_forecast sc
                 \<longleftrightarrow> m < months_to_forecast sc)
            \<and> (m = 1 \<or> gt_zero (balance_after sc rates (m - 1))
                 \<longrightarrow> total_months_of_runway r = m - 1)))"
proof (intro conjI impI)
  show "map_sum (\<lambda>e. e)
     (\<lambda>r. (map month (monthly_forecast r), map balance (monthly_forecast r),
            length (monthly_forecast r), total_months_of_runway r, final_cash_balance r))
     (fst (calculate_runway s t u (insolvent_input 12)))
   = Inr ([1, 2, 3, 4, 5, 6, 7, 8, 9, 10],
          [Finite 9000, Finite 8000, Finite 7000, Finite 6000, Finite 5000, Finite 4000,
           Finite 3000, Finite 2000, Finite 1000, Finite 0],
          10, 9, Finite 0)"
  proof -
    have len: "length [1 .. (10::int)] = 10" by (simp add: upto.simps)
    have r: "fst (calculate_runway s t u (insolvent_input 12)) =
       Inr \<lparr>ScenarioResult.scenario_id = ''scn_'' @ s,
            ScenarioResult.timestamp = t,
            input = insolvent_input 12,
            monthly_forecast = map (entry_at (insolvent_input 12) (Finite 5000, Finite 0)) [1 .. 10],
            total_months_of_runway = 9,
            final_cash_balance = Finite 0\<rparr>"
      by (rule insolvent_stops_at_10) simp
    show ?thesis unfolding r
      by (simp add: insolvent_entries len del: map_map)
  qed
next
  assume h: "scenario_rates sc = Inr rates
       \<and> 1 \<le> m \<and> m \<le> months_to_forecast sc
       \<and> (\<forall>j. 1 \<le> j \<and> j < m \<longrightarrow> \<not> le_zero (balance_after sc rates j))
       \<and> le_zero (balance_after sc rates m)"
  then have h1: "scenario_rates sc = Inr rates" and h2: "1 \<le> m"
    and h3: "m \<le> months_to_forecast sc"
    and h4: "\<forall>j. 1 \<le> j \<and> j < m \<longrightarrow> \<not> le_zero (balance_after sc rates j)"
    and h5: "le_zero (balance_after sc rates m)"
    by blast+
  let ?r = "\<lparr>ScenarioResult.scenario_id = ''scn_'' @ s,
          ScenarioResult.timestamp = t,
          input = sc,
          monthly_forecast = map (entry_at sc rates) [1 .. m],
          total_months_of_runway = runway_over sc rates 0 [1 .. m],
          final_cash_balance = balance_after sc rates m\<rparr>"
  have res: "fst (calculate_runway s t u sc) = Inr ?r"
    by (rule calculate_runway_stops[OF h1 h2 h3 h4 h5])
  have months: "map month (monthly_forecast ?r) = [1 .. m]"
    by (simp add: entry_at_def comp_def)
  have balances: "map balance (monthly_forecast ?r) = map (balance_after sc rates) [1 .. m]"
    by (simp add: entry_at_def comp_def)
  have len: "int (length (monthly_forecast ?r)) = m" using h2 by simp
  have runway: "total_months_of_runway ?r = m - 1"
    if "m = 1 \<or> gt_zero (balance_after sc rates (m - 1))"
  proof (cases "m = 1")
    case True
    then show ?thesis
      using le_zero_not_gt_zero[OF h5] by (simp add: runway_over_def upto.simps)
  next
    case False
    with that h2 have g: "gt_zero (balance_after sc rates (m - 1))" and m2: "1 \<le> m - 1"
      by auto
    show ?thesis
      using runway_over_none[OF h2 le_zero_not_gt_zero[OF h5], of 0]
        runway_over_last[OF m2 g, of 0] by simp
  qed
  show "\<exists>r. fst (calculate_runway s t u sc) = Inr r
            \<and> map month (monthly_forecast r) = [1 .. m]
            \<and> map balance (monthly_forecast r) = map (balance_after sc rates) [1 .. m]
            \<and> int (length (monthly_forecast r)) = m
            \<and> final_cash_balance r = balance_after sc rates m
            \<and> (int (length (monthly_forecast r)) < months_to_forecast sc
                 \<longleftrightarrow> m < months_to_forecast sc)
            \<and> (m = 1 \<or> gt_zero (balance_after sc rates (m - 1))
                 \<longrightarrow> total_months_of_runway r = m - 1)"
  proof (intro exI[of _ ?r] conjI impI)
    show "fst (calculate_runway s t u sc) = Inr ?r" by (rule res)
    show "map month (monthly_forecast ?r) = [1 .. m]" by (rule months)
    show "map balance (monthly_forecast ?r) = map (balance_after sc rates) [1 .. m]"
      by (rule balances)
    show "int (length (monthly_forecast ?r)) = m" by (rule len)
    show "final_cash_balance ?r = balance_after sc rates m" by simp
    show "(int (length (monthly_forecast ?r)) < months_to_forecast sc)
            = (m < months_to_forecast sc)" unfolding len ..
    show "total_months_of_runway ?r = m - 1"
      if "m = 1 \<or> gt_zero (balance_after sc rates (m - 1))" using runway[OF that] .
  qed
qed

theorem C2_insolvency_stops_loop_witness:
  "scenario_rates (insolvent_input 10) = Inr (Finite 5000, Finite 0)
   \<and> 1 \<le> (10::int) \<and> 10 \<le> months_to_forecast (insolvent_input 10)
   \<and> \<not> (\<exists>j. 1 \<le> j \<and> j < 10
            \<and> le_zero (balance_after (insolvent_input 10) (Finite 5000, Finite 0) j))
   \<and> le_zero (balance_after (insolvent_input 10) (Finite 5000, Finite 0) 10)
   \<and> gt_zero (balance_after (insolvent_input 10) (Finite 5000, Finite 0) (10 - 1))
   \<and> map_sum (\<lambda>e. e)
        (\<lambda>r. (int (length (monthly_forecast r)), total_months_of_runway r,
               final_cash_balance r))
        (fst (calculate_runway [] [] 0 (insolvent_input 10)))
      = Inr (10, 10 - 1, balance_after (insolvent_input 10) (Finite 5000, Finite 0) 10)"
proof -
  let ?sc = "insolvent_input 10" and ?rates = "(Finite 5000, Finite 0)"
  have n: "10 \<le> months_to_forecast ?sc" by (simp add: insolvent_input_def)
  have h4: "\<forall>j. 1 \<le> j \<and> j < 10 \<longrightarrow> \<not> le_zero (balance_after ?sc ?rates j)"
    by (simp add: insolvent_balance)
  have h5: "le_zero (balance_after ?sc ?rates 10)"
    by (simp add: insolvent_balance)
  have g: "gt_zero (balance_after ?sc ?rates (10 - 1))"
    by (simp add: insolvent_balance)
  have one: "1 \<le> (10::int)" by simp
  have h: "scenario_rates ?sc = Inr ?rates
       \<and> 1 \<le> (10::int) \<and> 10 \<le> months_to_forecast ?sc
       \<and> (\<forall>j. 1 \<le> j \<and> j < 10 \<longrightarrow> \<not> le_zero (balance_after ?sc ?rates j))
       \<and> le_zero (balance_after ?sc ?rates 10)"
    by (intro conjI insolvent_rates one n h4 h5)
  have "\<exists>r. fst (calculate_runway [] [] 0 ?sc) = Inr r
            \<and> map month (monthly_forecast r) = [1 .. 10]
            \<and> map balance (monthly_forecast r) = map (balance_after ?sc ?rates) [1 .. 10]
            \<and> int (length (monthly_forecast r)) = 10
            \<and> final_cash_balance r = balance_after ?sc ?rates 10
            \<and> (int (length (monthly_forecast r)) < months_to_forecast ?sc
                 \<longleftrightarrow> 10 < months_to_forecast ?sc)
            \<and> ((10::int) = 1 \<or> gt_zero (balance_after ?sc ?rates (10 - 1))
                 \<longrightarrow> total_months_of_runway r = 10 - 1)"
    by (rule C2_insolvency_stops_loop[of "[]" "[]" 0 ?sc ?rates 10, THEN conjunct2, THEN mp, OF h])
  then obtain r where r1: "fst (calculate_runway [] [] 0 ?sc) = Inr r"
    and r2: "int (length (monthly_forecast r)) = 10"
    and r3: "final_cash_balance r = balance_after ?sc ?rates 10"
    and r4: "(10::int) = 1 \<or> gt_zero (balance_after ?sc ?rates (10 - 1))
                 \<longrightarrow> total_months_of_runway r = 10 - 1"
    by (elim exE conjE)
  have rw: "total_months_of_runway r = 10 - 1"
    by (rule r4[THEN mp]) (rule disjI2, rule g)
  have c: "map_sum (\<lambda>e. e)
        (\<lambda>r. (int (length (monthly_forecast r)), total_months_of_runway r,
               final_cash_balance r))
        (fst (calculate_runway [] [] 0 ?sc))
      = Inr (10, 10 - 1, balance_after ?sc ?rates 10)"
    unfolding r1 by (simp only: map_sum.simps r2 r3 rw)
  have ne: "\<not> (\<exists>j. 1 \<le> j \<and> j < 10 \<and> le_zero (balance_after ?sc ?rates j))"
    using h4 by blast
  show ?thesis
    by (intro conjI insolvent_rates one n ne h5 g c)
qed

text \<open>
  C6 (as stated, general part): whenever the running balance stays positive through all
  \<open>N\<close> months, the runway count equals \<open>N\<close>. The horizon is an unconstrained integer; for
  cash 1000, revenue 8000, expenses 5000 and horizon \<open>-3\<close> there is no month at all, so
  no balance fails to be positive, and the runway returned is 0, not \<open>-3\<close>.
\<close>

theorem C6_negative_horizon_counterexample:
  "\<not> (\<exists>j. 1 \<le> j \<and> j \<le> months_to_forecast (solvent_input (- 3))
          \<and> \<not> gt_zero (balance_after (solvent_input (- 3)) (Finite 8000, Finite 0) j))
   \<and> map_sum (\<lambda>e. e)
        (\<lambda>r. (length (monthly_forecast r), total_months_of_runway r,
               total_months_of_runway r = months_to_forecast (solvent_input (- 3))))
        (fst (calculate_runway [] [] 0 (solvent_input (- 3))))
      = Inr (0, 0, False)"
proof -
  have n: "months_to_forecast (solvent_input (- 3)) = - 3" by (simp add: solvent_input_def)
  have a: "\<not> (\<exists>j. 1 \<le> j \<and> j \<le> months_to_forecast (solvent_input (- 3))
          \<and> \<not> gt_zero (balance_after (solvent_input (- 3)) (Finite 8000, Finite 0) j))"
    unfolding n by auto
  have b: "map_sum (\<lambda>e. e)
        (\<lambda>r. (length (monthly_forecast r), total_months_of_runway r,
               total_months_of_runway r = months_to_forecast (solvent_input (- 3))))
        (fst (calculate_runway [] [] 0 (solvent_input (- 3))))
      = Inr (0, 0, False)"
    unfolding solvent_negative_horizon n by simp
  show ?thesis by (intro conjI a b)
qed

text \<open>
  C6 (amended): for cash 1000, revenue 8000, expenses 5000, no hires, no marketing, no
  price increase and a horizon of 6 the forecast has 6 entries, the runway is 6 and the
  final balance is 19000. In general, when the scenario's rates are computed without an
  exception and the balance the loop accumulates is positive after each of the months 1
  to \<open>N\<close>, the loop runs through every month: the forecast has one entry for each month
  1 to \<open>N\<close> with the accumulated balances, the runway is \<open>N\<close> for \<open>N \<ge> 0\<close> and 0 for a
  negative horizon, and the final balance is the one accumulated after the last month.
\<close>

theorem C6_never_insolvent:
  "map_sum (\<lambda>e. e)
     (\<lambda>r. (length (monthly_forecast r), total_months_of_runway r, final_cash_balance r))
     (fst (calculate_runway s t u (solvent_input 6)))
   = Inr (6, 6, Finite 19000)
   \<and> (scenario_rates sc = Inr rates
       \<and> (\<forall>j. 1 \<le> j \<and> j \<le> months_to_forecast sc \<longrightarrow> gt_zero (balance_after sc rates j))
       \<longrightarrow> (\<exists>r. fst (calculate_runway s t u sc) = Inr r
            \<and> map month (monthly_forecast r) = [1 .. months_to_forecast sc]
            \<and> map balance (monthly_forecast r)
                = map (balance_after sc rates) [1 .. months_to_forecast sc]
            \<and> length (monthly_forecast r) = nat (months_to_forecast sc)
            \<and> total_months_of_runway r = max 0 (months_to_forecast sc)
            \<and> final_cash_balance r = balance_after sc rates (max 0 (months_to_forecast sc))))"
proof (intro conjI impI)
  have len: "length [1 .. (6::int)] = 6" by (simp add: upto.simps)
  show "map_sum (\<lambda>e. e)
     (\<lambda>r. (length (monthly_forecast r), total_months_of_runway r, final_cash_balance r))
     (fst (calculate_runway s t u (solvent_input 6)))
   = Inr (6, 6, Finite 19000)"
    unfolding solvent_runs_6 by (simp add: len)
next
  let ?N = "months_to_forecast sc"
  assume h: "scenario_rates sc = Inr rates
       \<and> (\<forall>j. 1 \<le> j \<and> j \<le> ?N \<longrightarrow> gt_zero (balance_after sc rates j))"
  then have h1: "scenario_rates sc = Inr rates"
    and h2: "\<forall>j. 1 \<le> j \<and> j \<le> ?N \<longrightarrow> gt_zero (balance_after sc rates j)"
    by blast+
  have h3: "\<forall>j. 1 \<le> j \<and> j \<le> ?N \<longrightarrow> \<not> le_zero (balance_after sc rates j)"
    using h2 gt_zero_not_le_zero by blast
  let ?r = "\<lparr>ScenarioResult.scenario_id = ''scn_'' @ s,
          ScenarioResult.timestamp = t,
          input = sc,
          monthly_forecast = map (entry_at sc rates) [1 .. ?N],
          total_months_of_runway = runway_over sc rates 0 [1 .. ?N],
          final_cash_balance = balance_after sc rates (max 0 ?N)\<rparr>"
  have res: "fst (calculate_runway s t u sc) = Inr ?r"
    by (rule calculate_runway_never_stops[OF h1 h3])
  have months: "map month (monthly_forecast ?r) = [1 .. ?N]"
    by (simp add: entry_at_def comp_def)
  have balances: "map balance (monthly_forecast ?r) = map (balance_after sc rates) [1 .. ?N]"
    by (simp add: entry_at_def comp_def)
  have len: "length (monthly_forecast ?r) = nat ?N" by simp
  have runway: "total_months_of_runway ?r = max 0 ?N"
  proof (cases "1 \<le> ?N")
    case True
    then have "gt_zero (balance_after sc rates ?N)" using h2 by simp
    from runway_over_last[OF True this, of 0] True show ?thesis by simp
  next
    case False
    then show ?thesis by (simp add: runway_over_def)
  qed
  show "\<exists>r. fst (calculate_runway s t u sc) = Inr r
            \<and> map month (monthly_forecast r) = [1 .. ?N]
            \<and> map balance (monthly_forecast r) = map (balance_after sc rates) [1 .. ?N]
            \<and> length (monthly_forecast r) = nat ?N
            \<and> total_months_of_runway r = max 0 ?N
            \<and> final_cash_balance r = balance_after sc rates (max 0 ?N)"
  proof (intro exI[of _ ?r] conjI)
    show "fst (calculate_runway s t u sc) = Inr ?r" by (rule res)
    show "map month (monthly_forecast ?r) = [1 .. ?N]" by (rule months)
    show "map balance (monthly_forecast ?r) = map (balance_after sc rates) [1 .. ?N]"
      by (rule balances)
    show "length (monthly_forecast ?r) = nat ?N" by (rule len)
    show "total_months_of_runway ?r = max 0 ?N" by (rule runway)
    show "final_cash_balance ?r = balance_after sc rates (max 0 ?N)" by simp
  qed
qed

theorem C6_never_insolvent_witness:
  "scenario_rates (solvent_input 6) = Inr (Finite 8000, Finite 0)
   \<and> \<not> (\<exists>j. 1 \<le> j \<and> j \<le> months_to_forecast (solvent_input 6)
            \<and> \<not> gt_zero (balance_after (solvent_input 6) (Finite 8000, Finite 0) j))
   \<and> map_sum (\<lambda>e. e)
        (\<lambda>r. (length (monthly_forecast r), total_months_of_runway r))
        (fst (calculate_runway [] [] 0 (solvent_input 6)))
      = Inr (nat (months_to_forecast (solvent_input 6)),
             max 0 (months_to_forecast (solvent_input 6)))"
proof -
  let ?sc = "solvent_input 6" and ?rates = "(Finite 8000, Finite 0)"
  have n: "months_to_forecast ?sc = 6" by (simp add: solvent_input_def)
  have h2: "\<forall>j. 1 \<le> j \<and> j \<le> months_to_forecast ?sc \<longrightarrow> gt_zero (balance_after ?sc ?rates j)"
    unfolding n
  proof (intro allI impI)
    fix j :: int assume j: "1 \<le> j \<and> j \<le> 6"
    then have "balance_after ?sc ?rates j = Finite (1000 + 3000 * real_of_int j)"
      by (simp add: solvent_balance)
    moreover have "0 < 1000 + 3000 * real_of_int j" using j by simp
    ultimately show "gt_zero (balance_after ?sc ?rates j)" by simp
  qed
  have h: "scenario_rates ?sc = Inr ?rates
       \<and> (\<forall>j. 1 \<le> j \<and> j \<le> months_to_forecast ?sc \<longrightarrow> gt_zero (balance_after ?sc ?rates j))"
    by (intro conjI solvent_rates h2)
  have "\<exists>r. fst (calculate_runway [] [] 0 ?sc) = Inr r
            \<and> map month (monthly_forecast r) = [1 .. months_to_forecast ?sc]
            \<and> map balance (monthly_forecast r)
                = map (balance_after ?sc ?rates) [1 .. months_to_forecast ?sc]
            \<and> length (monthly_forecast r) = nat (months_to_forecast ?sc)
            \<and> total_months_of_runway r = max 0 (months_to_forecast ?sc)
            \<and> final_cash_balance r = balance_after ?sc ?rates (max 0 (months_to_forecast ?sc))"
    by (rule C6_never_insolvent[of "[]" "[]" 0 ?sc ?rates, THEN conjunct2, THEN mp, OF h])
  then obtain r where r1: "fst (calculate_runway [] [] 0 ?sc) = Inr r"
    and r2: "length (monthly_forecast r) = nat (months_to_forecast ?sc)"
    and r3: "total_months_of_runway r = max 0 (months_to_forecast ?sc)"
    by (elim exE conjE)
  have c: "map_sum (\<lambda>e. e)
        (\<lambda>r. (length (monthly_forecast r), total_months_of_runway r))
        (fst (calculate_runway [] [] 0 ?sc))
      = Inr (nat (months_to_forecast ?sc), max 0 (months_to_forecast ?sc))"
    unfolding r1 by (simp only: map_sum.simps r2 r3)
  have ne: "\<not> (\<exists>j. 1 \<le> j \<and> j \<le> months_to_forecast ?sc
            \<and> \<not> gt_zero (balance_after ?sc ?rates j))"
    using h2 by blast
  show ?thesis by (intro conjI solvent_rates ne c)
qed

section \<open>Properties of the retrieval index\<close>

lemma search_empty_index: "documents vs = [] \<Longrightarrow> search draw vs query k = Inr []"
  by (simp add: search_def)

lemma select_documents_append:
  "select_documents docs (xs @ ys) =
     (case select_documents docs xs of
        Inl e \<Rightarrow> Inl e
      | Inr a \<Rightarrow> (case select_documents docs ys of Inl e \<Rightarrow> Inl e | Inr b \<Rightarrow> Inr (a @ b)))"
  by (induction xs) (auto split: sum.splits)

lemma select_documents_found:
  "\<forall>i \<in> set idxs. i < length docs \<Longrightarrow>
   select_documents docs (map int idxs) = Inr (map (\<lambda>i. docs ! i) idxs)"
  by (induction idxs) (auto simp: py_getitem_def)

lemma select_documents_padding:
  "docs \<noteq> [] \<Longrightarrow> select_documents docs (replicate m (- 1)) = Inr (replicate m (last docs))"
proof (induction m)
  case 0
  then show ?case by simp
next
  case (Suc m)
  have "py_getitem docs (- 1) = Inr (last docs)"
    using Suc.prems by (cases docs rule: rev_cases) (auto simp: py_getitem_def nat_diff_distrib)
  with Suc show ?case by simp
qed

lemma search_nonempty:
  assumes "documents vs \<noteq> []" and "length (index vs) = length (documents vs)" and "0 < k"
  shows "search draw vs query k =
     Inr (map (\<lambda>i. documents vs ! i)
            (take (nat k) (sort_key (\<lambda>i. l2sqr (index vs ! i) (hd (random_rows draw 1 (dimension vs))))
                             [0 ..< length (index vs)]))
          @ replicate (nat k - min (length (index vs)) (nat k)) (last (documents vs)))"
proof -
  let ?order = "sort_key (\<lambda>i. l2sqr (index vs ! i) (hd (random_rows draw 1 (dimension vs))))
                  [0 ..< length (index vs)]"
  have "set ?order = {0 ..< length (index vs)}" by simp
  then have "\<forall>i \<in> set (take (nat k) ?order). i < length (documents vs)"
    using assms(2) by (auto dest: in_set_takeD)
  then have found: "select_documents (documents vs) (map int (take (nat k) ?order))
      = Inr (map (\<lambda>i. documents vs ! i) (take (nat k) ?order))"
    by (rule select_documents_found)
  show ?thesis
    using assms found
    by (simp add: search_def IndexFlatL2_search_def Let_def select_documents_append
        select_documents_padding min_def)
qed

text \<open>
  C3 at the input the claim names: two documents are added to an empty store and the
  search asks for five. The library pads the labels of the three missing neighbours with
  \<open>-1\<close>, the filter \<^verbatim>\<open>idx < len(self.documents)\<close> lets them through, and
  \<^verbatim>\<open>self.documents[-1]\<close> is the last document: the result has five entries, the last
  three being copies of the last document, where the claim promises exactly two.
\<close>

theorem C3_search_pads_with_last_document:
  "(case search draw (add_documents draw' two_documents (VectorStore_init d)) query 5 of
      Inl e \<Rightarrow> False
    | Inr ds \<Rightarrow> length ds = 5 \<and> drop 2 ds = replicate 3 (last two_documents))"
proof -
  let ?vs = "add_documents draw' two_documents (VectorStore_init d)"
  have docs: "documents ?vs = two_documents"
    and idx: "length (index ?vs) = 2"
    by (simp_all add: add_documents_def VectorStore_init_def two_documents_def Let_def
        random_rows_def)
  have ne: "documents ?vs \<noteq> []" and len: "length (index ?vs) = length (documents ?vs)"
    unfolding docs idx by (simp_all add: two_documents_def)
  let ?order = "sort_key (\<lambda>i. l2sqr (index ?vs ! i) (hd (random_rows draw 1 (dimension ?vs))))
                  [0 ..< length (index ?vs)]"
  have l: "length (take (nat 5) ?order) = 2" unfolding idx by simp
  have pos: "0 < (5::int)" by simp
  show ?thesis
    unfolding search_nonempty[OF ne len pos, of draw query] docs
    using l by (simp add: idx)
qed

section \<open>Properties of the scenario engine\<close>

text \<open>
  C5: for every original and updated context, the impact dictionary maps
  \<^verbatim>\<open>profit_impact\<close> to (updated revenue - updated expenses) - (original revenue -
  original expenses), and \<^verbatim>\<open>revenue_change\<close>, \<^verbatim>\<open>expense_change\<close>, \<^verbatim>\<open>marketing_impact\<close>
  and \<^verbatim>\<open>runway_impact\<close> to the difference of the corresponding field.
\<close>

theorem C5_impact_deltas:
  "map_of (calculate_impact original updated) ''profit_impact''
     = Some ((monthly_revenue updated - monthly_expenses updated)
             - (monthly_revenue original - monthly_expenses original))
   \<and> map_of (calculate_impact original updated) ''revenue_change''
     = Some (monthly_revenue updated - monthly_revenue original)
   \<and> map_of (calculate_impact original updated) ''expense_change''
     = Some (monthly_expenses updated - monthly_expenses original)
   \<and> map_of (calculate_impact original updated) ''marketing_impact''
     = Some (marketing_spend updated - marketing_spend original)
   \<and> map_of (calculate_impact original updated) ''runway_impact''
     = Some (runway_months updated - runway_months original)
   \<and> map fst (calculate_impact original updated)
     = [''revenue_change'', ''expense_change'', ''marketing_impact'', ''runway_impact'',
        ''profit_impact'']"
  by (simp add: calculate_impact_def)

subsection \<open>The sample agents\<close>

lemma str_nat_1: "str_nat (Suc 0) = ''1''"
  by code_simp

lemma sample_agent_stores:
  "scenario_store (sample_agent c chg) =
     [(''scenario_1'', \<lparr>UserScenario.scenario_id = ''scenario_1'',
        UserScenario.company_id = FinancialContext.company_id c,
        changes = chg, timestamp = 1\<rparr>)]"
  "context_store (sample_agent c chg) = [(FinancialContext.company_id c, c)]"
  "analysis_store (sample_agent c chg) = []"
  by (simp_all add: sample_agent_def create_scenario_def add_financial_context_def
      RAGAgent_init_def Let_def sample_externals_def str_nat_1)

lemma orphan_agent_stores:
  "scenario_store orphan_agent =
     [(''scenario_1'', \<lparr>UserScenario.scenario_id = ''scenario_1'',
        UserScenario.company_id = ''ghost'', changes = [], timestamp = 1\<rparr>)]"
  "context_store orphan_agent = []"
  by (simp_all add: orphan_agent_def create_scenario_def RAGAgent_init_def Let_def
      sample_externals_def str_nat_1)

subsection \<open>Which exceptions the analysis can raise\<close>

lemma py_iadd_error: "py_iadd a b = Inl e \<Longrightarrow> e = TypeError"
  by (cases "(a, b)" rule: py_iadd.cases) auto

lemma merge_changes_error: "merge_changes d chg = Inl e \<Longrightarrow> e = TypeError"
proof (induction d chg rule: merge_changes.induct)
  case (1 updated_data)
  then show ?case by simp
next
  case (2 updated_data key v rest)
  then show ?case
    by (auto split: option.splits if_splits sum.splits dest: py_iadd_error)
qed

lemma FinancialContext_init_error:
  "FinancialContext_init ext d = Inl e \<Longrightarrow> \<exists>names. e = ValidationError names"
  unfolding FinancialContext_init_def Let_def by (auto split: if_splits)

lemma proposed_changes_error:
  "proposed_changes ext original updated = Inl e \<Longrightarrow>
   e = ZeroDivisionError \<and> monthly_revenue original = 0
   \<and> monthly_revenue updated \<noteq> monthly_revenue original"
  unfolding proposed_changes_def Let_def py_truediv_def
  by (auto split: if_splits sum.splits)

lemma generate_summary_error:
  "generate_summary ext store original updated impact = Inl e \<Longrightarrow> e = ZeroDivisionError"
  unfolding generate_summary_def Let_def
  by (auto split: sum.splits dest: proposed_changes_error)

lemma analyze_scenario_found:
  assumes "map_of (scenario_store agent) sid = Some sc"
    and "map_of (context_store agent) (UserScenario.company_id sc) = Some c"
  shows "analyze_scenario ext agent sid =
     (case merge_changes (context_dict c) (changes sc) of
        Inl e \<Rightarrow> Inl e
      | Inr updated_data \<Rightarrow>
     (case FinancialContext_init ext updated_data of
        Inl e \<Rightarrow> Inl e
      | Inr updated \<Rightarrow>
     (case generate_summary ext (vector_store agent) c updated (calculate_impact c updated) of
        Inl e \<Rightarrow> Inl e
      | Inr text_summary \<Rightarrow>
          Inr (\<lparr>analysis_id = ''analysis_'' @ str_nat (length (analysis_store agent) + 1),
                FinancialAnalysis.scenario_id = sid,
                FinancialAnalysis.company_id = UserScenario.company_id sc,
                original_context = c,
                updated_context = updated,
                impact_analysis = calculate_impact c updated,
                summary = text_summary,
                created_at = utcnow ext\<rparr>,
               agent\<lparr>analysis_store :=
                 AList.update (''analysis_'' @ str_nat (length (analysis_store agent) + 1))
                   \<lparr>analysis_id = ''analysis_'' @ str_nat (length (analysis_store agent) + 1),
                    FinancialAnalysis.scenario_id = sid,
                    FinancialAnalysis.company_id = UserScenario.company_id sc,
                    original_context = c,
                    updated_context = updated,
                    impact_analysis = calculate_impact c updated,
                    summary = text_summary,
                    created_at = utcnow ext\<rparr>
                   (analysis_store agent)\<rparr>))))"
  using assms
  by (simp add: analyze_scenario_def get_financial_context_def Let_def split: sum.splits)

lemma analyze_scenario_found_error:
  assumes "map_of (scenario_store agent) sid = Some sc"
    and "map_of (context_store agent) (UserScenario.company_id sc) = Some c"
    and "analyze_scenario ext agent sid = Inl e"
  shows "e = TypeError \<or> e = ZeroDivisionError \<or> (\<exists>names. e = ValidationError names)"
  using assms(3) unfolding analyze_scenario_found[OF assms(1,2)]
  by (auto split: sum.splits
      dest: merge_changes_error FinancialContext_init_error generate_summary_error)

text \<open>
  C7: a scenario id that is not in the scenario store makes \<^verbatim>\<open>analyze_scenario\<close> raise
  \<^verbatim>\<open>ValueError("Scenario <id> not found")\<close>; a stored scenario whose company has no
  context makes it raise \<^verbatim>\<open>ValueError("No financial context found for company
  <company>")\<close>; the handler answers both with status 404 and that message. When the
  scenario and its context are both stored, no \<^verbatim>\<open>ValueError\<close> of the engine's own is raised.
\<close>

theorem C7_not_found:
  "(map_of (scenario_store agent) sid = None \<longrightarrow>
      analyze_scenario ext agent sid = Inl (ValueError (''Scenario '' @ sid @ '' not found''))
      \<and> analyze_scenario_endpoint ext agent sid
          = (HTTPException 404 (''Scenario '' @ sid @ '' not found''), agent))
   \<and> (map_of (scenario_store agent) sid = Some sc
       \<and> map_of (context_store agent) (UserScenario.company_id sc) = None \<longrightarrow>
      analyze_scenario ext agent sid
        = Inl (ValueError (''No financial context found for company ''
                           @ UserScenario.company_id sc))
      \<and> analyze_scenario_endpoint ext agent sid
          = (HTTPException 404 (''No financial context found for company ''
                                @ UserScenario.company_id sc), agent))
   \<and> (map_of (scenario_store agent) sid = Some sc
       \<and> map_of (context_store agent) (UserScenario.company_id sc) = Some c \<longrightarrow>
      (\<forall>msg. analyze_scenario ext agent sid \<noteq> Inl (ValueError msg)))"
proof (intro conjI impI allI)
  assume "map_of (scenario_store agent) sid = None"
  then show a: "analyze_scenario ext agent sid
      = Inl (ValueError (''Scenario '' @ sid @ '' not found''))"
    by (simp add: analyze_scenario_def)
  show "analyze_scenario_endpoint ext agent sid
          = (HTTPException 404 (''Scenario '' @ sid @ '' not found''), agent)"
    by (simp add: analyze_scenario_endpoint_def a is_ValueError_def str_error_def)
next
  assume h: "map_of (scenario_store agent) sid = Some sc
       \<and> map_of (context_store agent) (UserScenario.company_id sc) = None"
  then show a: "analyze_scenario ext agent sid
        = Inl (ValueError (''No financial context found for company ''
                           @ UserScenario.company_id sc))"
    by (simp add: analyze_scenario_def get_financial_context_def)
  show "analyze_scenario_endpoint ext agent sid
          = (HTTPException 404 (''No financial context found for company ''
                                @ UserScenario.company_id sc), agent)"
    by (simp add: analyze_scenario_endpoint_def a is_ValueError_def str_error_def)
next
  fix msg
  assume h: "map_of (scenario_store agent) sid = Some sc
       \<and> map_of (context_store agent) (UserScenario.company_id sc) = Some c"
  show "analyze_scenario ext agent sid \<noteq> Inl (ValueError msg)"
  proof
    assume "analyze_scenario ext agent sid = Inl (ValueError msg)"
    from analyze_scenario_found_error[OF conjunct1[OF h] conjunct2[OF h] this]
    show False by auto
  qed
qed

theorem C7_not_found_witness:
  "map_of (scenario_store (sample_agent sample_context [])) ''scenario_7'' = None
   \<and> analyze_scenario_endpoint (sample_externals (Inr ''ok'')) (sample_agent sample_context [])
        ''scenario_7''
      = (HTTPException 404 ''Scenario scenario_7 not found'', sample_agent sample_context [])
   \<and> map_of (context_store orphan_agent) ''ghost'' = None
   \<and> analyze_scenario_endpoint (sample_externals (Inr ''ok'')) orphan_agent ''scenario_1''
      = (HTTPException 404 ''No financial context found for company ghost'', orphan_agent)
   \<and> map_of (context_store (sample_agent sample_context [])) ''test_company_123''
      = Some sample_context
   \<and> analyze_scenario (sample_externals (Inr ''ok'')) (sample_agent sample_context [])
        ''scenario_1''
      \<noteq> Inl (ValueError ''Scenario scenario_1 not found'')"
proof -
  let ?E = "sample_externals (Inr ''ok'')"
  let ?A = "sample_agent sample_context []"
  let ?sc = "\<lparr>UserScenario.scenario_id = ''scenario_1'',
        UserScenario.company_id = FinancialContext.company_id sample_context,
        changes = [], timestamp = 1\<rparr>"
  let ?osc = "\<lparr>UserScenario.scenario_id = ''scenario_1'',
        UserScenario.company_id = ''ghost'', changes = [], timestamp = 1\<rparr>"
  have cid: "FinancialContext.company_id sample_context = ''test_company_123''"
    by (simp add: sample_context_def)
  have h1: "map_of (scenario_store ?A) ''scenario_7'' = None"
    by (simp add: sample_agent_stores)
  have h2: "map_of (scenario_store orphan_agent) ''scenario_1'' = Some ?osc
       \<and> map_of (context_store orphan_agent) (UserScenario.company_id ?osc) = None"
    by (simp add: orphan_agent_stores)
  have h3: "map_of (scenario_store ?A) ''scenario_1'' = Some ?sc
       \<and> map_of (context_store ?A) (UserScenario.company_id ?sc) = Some sample_context"
    by (simp add: sample_agent_stores)
  have c1: "analyze_scenario_endpoint ?E ?A ''scenario_7''
      = (HTTPException 404 (''Scenario '' @ ''scenario_7'' @ '' not found''), ?A)"
    using C7_not_found[of ?A "''scenario_7''" ?E] h1 by blast
  have c2: "analyze_scenario_endpoint ?E orphan_agent ''scenario_1''
      = (HTTPException 404 (''No financial context found for company ''
                                @ UserScenario.company_id ?osc), orphan_agent)"
    using C7_not_found[of orphan_agent "''scenario_1''" ?E ?osc] h2 by blast
  have c3: "analyze_scenario ?E ?A ''scenario_1''
      \<noteq> Inl (ValueError ''Scenario scenario_1 not found'')"
    using C7_not_found[of ?A "''scenario_1''" ?E ?sc sample_context] h3 by blast
  have g5: "map_of (context_store ?A) ''test_company_123'' = Some sample_context"
    using h3 by (simp add: cid)
  have g3: "map_of (context_store orphan_agent) ''ghost'' = None"
    using h2 by simp
  from c1 have c1': "analyze_scenario_endpoint ?E ?A ''scenario_7''
      = (HTTPException 404 ''Scenario scenario_7 not found'', ?A)" by simp
  from c2 have c2': "analyze_scenario_endpoint ?E orphan_agent ''scenario_1''
      = (HTTPException 404 ''No financial context found for company ghost'', orphan_agent)"
    by simp
  show ?thesis
    by (intro conjI h1 c1' g3 c2' g5 c3)
qed

text \<open>
  C8 at a context whose monthly revenue is zero and a scenario that adds 1000 to it:
  \<^verbatim>\<open>pct_change = (change / original.monthly_revenue) * 100\<close> divides by zero, the
  exception leaves \<^verbatim>\<open>_generate_summary\<close> and \<^verbatim>\<open>analyze_scenario\<close>, and the handler
  answers 500. The three sibling percentages (expenses, marketing spend, team size) and
  the two of the impact block test their denominator first.
\<close>

theorem C8_revenue_division_unguarded:
  "analyze_scenario ext
     (sample_agent zero_revenue_context [(''monthly_revenue'', PFloat 1000)]) ''scenario_1''
     = Inl ZeroDivisionError
   \<and> fst (analyze_scenario_endpoint ext
     (sample_agent zero_revenue_context [(''monthly_revenue'', PFloat 1000)]) ''scenario_1'')
     = HTTPException 500 ''float division by zero''"
proof -
  let ?A = "sample_agent zero_revenue_context [(''monthly_revenue'', PFloat 1000)]"
  let ?sc = "\<lparr>UserScenario.scenario_id = ''scenario_1'',
        UserScenario.company_id = FinancialContext.company_id zero_revenue_context,
        changes = [(''monthly_revenue'', PFloat 1000)], timestamp = 1\<rparr>"
  have s: "map_of (scenario_store ?A) ''scenario_1'' = Some ?sc"
    and c: "map_of (context_store ?A) (UserScenario.company_id ?sc) = Some zero_revenue_context"
    by (simp_all add: sample_agent_stores)
  have m: "merge_changes (context_dict zero_revenue_context) (changes ?sc)
      = Inr (context_dict (zero_revenue_context\<lparr>monthly_revenue := 1000\<rparr>))"
    by (simp add: context_dict_def zero_revenue_context_def sample_context_def)
  have i: "FinancialContext_init ext (context_dict (zero_revenue_context\<lparr>monthly_revenue := 1000\<rparr>))
      = Inr (zero_revenue_context\<lparr>monthly_revenue := 1000\<rparr>)"
    by (simp add: FinancialContext_init_def context_dict_def Let_def required_def
        with_default_def rejected_def str_validator_def float_validator_def
        int_validator_def datetime_validator_def dict_validator_def)
  have p: "proposed_changes ext zero_revenue_context (zero_revenue_context\<lparr>monthly_revenue := 1000\<rparr>)
      = Inl ZeroDivisionError"
    by (simp add: proposed_changes_def py_truediv_def zero_revenue_context_def
        sample_context_def Let_def)
  have a: "analyze_scenario ext ?A ''scenario_1'' = Inl ZeroDivisionError"
    unfolding analyze_scenario_found[OF s c] m
    by (simp add: i generate_summary_def p)
  show ?thesis
    by (simp add: a analyze_scenario_endpoint_def is_ValueError_def str_error_def)
qed

subsection \<open>The merge loop\<close>

lemma update_present_keys:
  "map_of d k = Some x \<Longrightarrow> map fst (AList.update k v d) = map fst d"
  by (simp add: update_keys map_of_eq_None_iff[symmetric] del: map_of_eq_None_iff)

lemma merge_changes_keys: "merge_changes d chg = Inr d' \<Longrightarrow> map fst d' = map fst d"
proof (induction d chg rule: merge_changes.induct)
  case (1 updated_data)
  then show ?case by simp
next
  case (2 updated_data key v rest)
  then show ?case
    by (auto split: option.splits if_splits sum.splits simp: update_present_keys)
qed

lemma merge_changes_drop_key:
  "map_of d key = None \<Longrightarrow>
   merge_changes d (filter (\<lambda>kv. fst kv \<noteq> key) chg) = merge_changes d chg"
proof (induction d chg rule: merge_changes.induct)
  case (1 updated_data)
  then show ?case by simp
next
  case (2 updated_data k v rest)
  show ?case
  proof (cases "k = key")
    case True
    with 2 show ?thesis by simp
  next
    case False
    have keep: "\<And>w. map_of (AList.update k w updated_data) key = None"
      using False "2.prems" by (simp add: update_conv')
    show ?thesis
      using False 2 keep
      by (auto split: option.splits sum.splits)
  qed
qed

lemma context_dict_keys: "map fst (context_dict c) = context_fields"
  by (simp add: context_dict_def context_fields_def)

lemma context_dict_unknown: "key \<notin> set context_fields \<Longrightarrow> map_of (context_dict c) key = None"
  using context_dict_keys[of c] by (metis map_of_eq_None_iff set_map)

text \<open>
  C10: a key of the changes that is not a field of \<^verbatim>\<open>FinancialContext\<close> is skipped by
  the guard \<^verbatim>\<open>if key in updated_data\<close>. The merged dictionary, or the exception of the
  merge, is the one of the same changes without that key; a merged dictionary has exactly
  the fields of the schema; and the analysis of the scenario, or its exception, is the
  one obtained when the stored scenario is replaced by the scenario without that key.
\<close>

theorem C10_unknown_key_ignored:
  "key \<notin> set context_fields \<longrightarrow>
     merge_changes (context_dict c) chg
       = merge_changes (context_dict c) (filter (\<lambda>kv. fst kv \<noteq> key) chg)
     \<and> (\<forall>d. merge_changes (context_dict c) chg = Inr d \<longrightarrow> map fst d = context_fields)
     \<and> (map_of (scenario_store agent) sid = Some sc \<longrightarrow>
          map_sum (\<lambda>e. e) fst (analyze_scenario ext agent sid)
          = map_sum (\<lambda>e. e) fst (analyze_scenario ext
              (agent\<lparr>scenario_store := AList.update sid
                 (sc\<lparr>changes := filter (\<lambda>kv. fst kv \<noteq> key) (changes sc)\<rparr>)
                 (scenario_store agent)\<rparr>) sid))"
proof (intro impI conjI allI)
  assume k: "key \<notin> set context_fields"
  show "merge_changes (context_dict c) chg
       = merge_changes (context_dict c) (filter (\<lambda>kv. fst kv \<noteq> key) chg)"
    using merge_changes_drop_key[OF context_dict_unknown[OF k]] by simp
  show "map fst d = context_fields" if "merge_changes (context_dict c) chg = Inr d" for d
    using merge_changes_keys[OF that] by (simp add: context_dict_keys)
  assume s: "map_of (scenario_store agent) sid = Some sc"
  let ?sc' = "sc\<lparr>changes := filter (\<lambda>kv. fst kv \<noteq> key) (changes sc)\<rparr>"
  let ?agent' = "agent\<lparr>scenario_store := AList.update sid ?sc' (scenario_store agent)\<rparr>"
  have s': "map_of (scenario_store ?agent') sid = Some ?sc'"
    by (simp add: update_conv')
  show "map_sum (\<lambda>e. e) fst (analyze_scenario ext agent sid)
          = map_sum (\<lambda>e. e) fst (analyze_scenario ext ?agent' sid)"
  proof (cases "map_of (context_store agent) (UserScenario.company_id sc)")
    case None
    then show ?thesis
      using s s' by (simp add: analyze_scenario_def get_financial_context_def)
  next
    case (Some c0)
    have c': "map_of (context_store ?agent') (UserScenario.company_id ?sc') = Some c0"
      using Some by simp
    have m: "merge_changes (context_dict c0) (changes ?sc')
        = merge_changes (context_dict c0) (changes sc)"
      using merge_changes_drop_key[OF context_dict_unknown[OF k]] by simp
    show ?thesis
      unfolding analyze_scenario_found[OF s Some] analyze_scenario_found[OF s' c'] m
      by (simp split: sum.splits)
  qed
qed

theorem C10_unknown_key_ignored_witness:
  "''bogus'' \<notin> set context_fields
   \<and> merge_changes (context_dict sample_context) bogus_changes
     = merge_changes (context_dict sample_context) [(''team_size'', PInt 2)]
   \<and> map_of (scenario_store (sample_agent sample_context bogus_changes)) ''scenario_1''
     = Some \<lparr>UserScenario.scenario_id = ''scenario_1'',
             UserScenario.company_id = ''test_company_123'',
             changes = bogus_changes, timestamp = 1\<rparr>
   \<and> map_sum (\<lambda>e. e) fst
       (analyze_scenario (sample_externals (Inr ''ok''))
          (sample_agent sample_context bogus_changes) ''scenario_1'')
     = map_sum (\<lambda>e. e) fst
       (analyze_scenario (sample_externals (Inr ''ok''))
          (sample_agent sample_context [(''team_size'', PInt 2)]) ''scenario_1'')"
proof -
  let ?E = "sample_externals (Inr ''ok'')"
  let ?A = "sample_agent sample_context bogus_changes"
  let ?sc = "\<lparr>UserScenario.scenario_id = ''scenario_1'',
             UserScenario.company_id = ''test_company_123'',
             changes = bogus_changes, timestamp = 1\<rparr>"
  have k: "''bogus'' \<notin> set context_fields"
    by (simp add: context_fields_def)
  have f: "filter (\<lambda>kv. fst kv \<noteq> ''bogus'') bogus_changes = [(''team_size'', PInt 2)]"
    by (simp add: bogus_changes_def)
  have s: "map_of (scenario_store ?A) ''scenario_1'' = Some ?sc"
    by (simp add: sample_agent_stores sample_context_def)
  have a: "?A\<lparr>scenario_store := AList.update ''scenario_1''
                 (?sc\<lparr>changes := filter (\<lambda>kv. fst kv \<noteq> ''bogus'') (changes ?sc)\<rparr>)
                 (scenario_store ?A)\<rparr>
           = sample_agent sample_context [(''team_size'', PInt 2)]"
    by (simp add: f sample_agent_def create_scenario_def add_financial_context_def
        RAGAgent_init_def Let_def sample_externals_def str_nat_1 sample_context_def)
  note t = C10_unknown_key_ignored[of "''bogus''" sample_context bogus_changes ?A
      "''scenario_1''" ?sc ?E, rule_format, OF k]
  have c1: "merge_changes (context_dict sample_context) bogus_changes
     = merge_changes (context_dict sample_context) [(''team_size'', PInt 2)]"
    using t f by simp
  have c2: "map_sum (\<lambda>e. e) fst (analyze_scenario ?E ?A ''scenario_1'')
     = map_sum (\<lambda>e. e) fst
       (analyze_scenario ?E (sample_agent sample_context [(''team_size'', PInt 2)]) ''scenario_1'')"
    using conjunct2[OF conjunct2[OF t], rule_format, OF s] unfolding a .
  show ?thesis
    by (intro conjI k c1 s c2)
qed
subsection \<open>The stores after an analysis\<close>

lemma of_char_digit: "d < 10 \<Longrightarrow> (of_char (char_of (48 + d)) :: nat) = 48 + d"
  by simp

lemma nat_of_digits_snoc:
  "nat_of_digits (s @ [c]) = 10 * nat_of_digits s + (of_char c - 48)"
  by (simp add: nat_of_digits_def)

lemma nat_of_digits_str_nat: "nat_of_digits (str_nat n) = n"
proof (induction n rule: str_nat.induct)
  case (1 n)
  show ?case
  proof (cases "n < 10")
    case True
    then have "str_nat n = [char_of (48 + n)]" by (simp add: str_nat.simps)
    then show ?thesis using True by (simp add: nat_of_digits_def)
  next
    case False
    then have s: "str_nat n = str_nat (n div 10) @ [char_of (48 + n mod 10)]"
      by (subst str_nat.simps) simp
    have d: "(of_char (char_of (48 + n mod 10)) :: nat) = 48 + n mod 10"
      by (rule of_char_digit) simp
    show ?thesis unfolding s nat_of_digits_snoc d using 1[OF False] by simp
  qed
qed

lemma str_nat_inj: "str_nat a = str_nat b \<Longrightarrow> a = b"
  by (metis nat_of_digits_str_nat)

lemma update_fresh: "k \<notin> fst ` set al \<Longrightarrow> AList.update k v al = al @ [(k, v)]"
  by (induction al) auto

lemma analyze_scenario_success:
  assumes "analyze_scenario ext agent sid = Inr (analysis, agent')"
  shows "analysis_id analysis = ''analysis_'' @ str_nat (length (analysis_store agent) + 1)"
    and "agent' = agent\<lparr>analysis_store :=
           AList.update (analysis_id analysis) analysis (analysis_store agent)\<rparr>"
  using assms
  by (auto simp: analyze_scenario_def Let_def split: option.splits sum.splits)

lemma analysis_key_fresh:
  assumes "map fst al = map (\<lambda>i. ''analysis_'' @ str_nat (Suc i)) [0 ..< length al]"
  shows "''analysis_'' @ str_nat (length al + 1) \<notin> fst ` set al"
proof
  assume "''analysis_'' @ str_nat (length al + 1) \<in> fst ` set al"
  then have "''analysis_'' @ str_nat (length al + 1) \<in> set (map fst al)" by simp
  then obtain i where "i < length al"
    and "''analysis_'' @ str_nat (length al + 1) = ''analysis_'' @ str_nat (Suc i)"
    unfolding assms by auto
  then show False using str_nat_inj[of "length al + 1" "Suc i"] by simp
qed

lemma reachable_analysis_keys:
  "reachable agent \<Longrightarrow>
   map fst (analysis_store agent)
     = map (\<lambda>i. ''analysis_'' @ str_nat (Suc i)) [0 ..< length (analysis_store agent)]"
proof (induction rule: reachable.induct)
  case (reachable_init ext encode)
  show ?case by (simp add: RAGAgent_init_def)
next
  case (reachable_context agent c)
  then show ?case by (simp add: add_financial_context_def)
next
  case (reachable_scenario agent chg ext company)
  then show ?case by (simp add: create_scenario_def Let_def)
next
  case (reachable_analysis agent ext sid analysis agent')
  note s = analyze_scenario_success[OF reachable_analysis.hyps(2)]
  have f: "analysis_id analysis \<notin> fst ` set (analysis_store agent)"
    unfolding s(1) by (rule analysis_key_fresh[OF reachable_analysis.IH])
  have "analysis_store agent' = analysis_store agent @ [(analysis_id analysis, analysis)]"
    by (subst s(2)) (simp add: update_fresh[OF f])
  then show ?case using reachable_analysis.IH s(1) by simp
qed

lemma analyze_scenario_needs:
  assumes "analyze_scenario ext agent sid = Inr (analysis, agent')"
  shows "\<exists>scenario c. map_of (scenario_store agent) sid = Some scenario
           \<and> map_of (context_store agent) (UserScenario.company_id scenario) = Some c"
  using assms
  by (auto simp: analyze_scenario_def get_financial_context_def split: option.splits)

lemma sample_agent_reachable:
  "distinct (map fst chg) \<Longrightarrow> reachable (sample_agent c chg)"
  unfolding sample_agent_def
  by (intro reachable_scenario reachable_context reachable_init)

text \<open>
  C9: in an agent built by the engine's own operations, a successful call of
  \<^verbatim>\<open>analyze_scenario\<close> (which needs the scenario and a context of its company to be
  stored) leaves the context store, the scenario store and the vector store as they were,
  and appends exactly one entry to the analysis store: its key is the id of the returned
  analysis, \<^verbatim>\<open>analysis_<n+1>\<close> for a store of \<open>n\<close> entries, it was not a key of the
  store before, and its value is the returned analysis; the entries already there are
  unchanged.
\<close>

theorem C9_analysis_recorded:
  "reachable agent \<and> analyze_scenario ext agent sid = Inr (analysis, agent')
   \<longrightarrow> (\<exists>scenario c. map_of (scenario_store agent) sid = Some scenario
           \<and> map_of (context_store agent) (UserScenario.company_id scenario) = Some c)
     \<and> context_store agent' = context_store agent
     \<and> scenario_store agent' = scenario_store agent
     \<and> vector_store agent' = vector_store agent
     \<and> analysis_id analysis = ''analysis_'' @ str_nat (length (analysis_store agent) + 1)
     \<and> map_of (analysis_store agent) (analysis_id analysis) = None
     \<and> analysis_store agent' = analysis_store agent @ [(analysis_id analysis, analysis)]
     \<and> map_of (analysis_store agent')
         = (map_of (analysis_store agent))(analysis_id analysis \<mapsto> analysis)"
proof (intro impI)
  assume h: "reachable agent \<and> analyze_scenario ext agent sid = Inr (analysis, agent')"
  then have r: "reachable agent"
    and a: "analyze_scenario ext agent sid = Inr (analysis, agent')"
    by blast+
  note s = analyze_scenario_success[OF a]
  have f: "analysis_id analysis \<notin> fst ` set (analysis_store agent)"
    unfolding s(1) by (rule analysis_key_fresh[OF reachable_analysis_keys[OF r]])
  have c1: "context_store agent' = context_store agent"
    and c2: "scenario_store agent' = scenario_store agent"
    and c3: "vector_store agent' = vector_store agent"
    by (subst s(2), simp)+
  have c4: "map_of (analysis_store agent) (analysis_id analysis) = None"
    using f by (simp add: map_of_eq_None_iff)
  have c5: "analysis_store agent' = analysis_store agent @ [(analysis_id analysis, analysis)]"
    by (subst s(2)) (simp add: update_fresh[OF f])
  have c6: "map_of (analysis_store agent')
         = (map_of (analysis_store agent))(analysis_id analysis \<mapsto> analysis)"
    by (subst s(2)) (simp add: update_conv')
  show "(\<exists>scenario c. map_of (scenario_store agent) sid = Some scenario
           \<and> map_of (context_store agent) (UserScenario.company_id scenario) = Some c)
     \<and> context_store agent' = context_store agent
     \<and> scenario_store agent' = scenario_store agent
     \<and> vector_store agent' = vector_store agent
     \<and> analysis_id analysis = ''analysis_'' @ str_nat (length (analysis_store agent) + 1)
     \<and> map_of (analysis_store agent) (analysis_id analysis) = None
     \<and> analysis_store agent' = analysis_store agent @ [(analysis_id analysis, analysis)]
     \<and> map_of (analysis_store agent')
         = (map_of (analysis_store agent))(analysis_id analysis \<mapsto> analysis)"
    by (intro conjI analyze_scenario_needs[OF a] c1 c2 c3 s(1) c4 c5 c6)
qed

theorem C9_analysis_recorded_witness:
  "reachable (sample_agent sample_context [(''team_size'', PInt 2)])
   \<and> (\<exists>analysis agent'.
        analyze_scenario (sample_externals (Inr ''ok''))
          (sample_agent sample_context [(''team_size'', PInt 2)]) ''scenario_1''
          = Inr (analysis, agent')
        \<and> team_size (updated_context analysis) = 12
        \<and> analysis_id analysis = ''analysis_1''
        \<and> context_store agent'
            = context_store (sample_agent sample_context [(''team_size'', PInt 2)])
        \<and> scenario_store agent'
            = scenario_store (sample_agent sample_context [(''team_size'', PInt 2)])
        \<and> analysis_store agent' = [(''analysis_1'', analysis)])"
proof -
  let ?E = "sample_externals (Inr ''ok'')"
  let ?A = "sample_agent sample_context [(''team_size'', PInt 2)]"
  let ?sc = "\<lparr>UserScenario.scenario_id = ''scenario_1'',
        UserScenario.company_id = FinancialContext.company_id sample_context,
        changes = [(''team_size'', PInt 2)], timestamp = 1\<rparr>"
  let ?u = "sample_context\<lparr>team_size := 12\<rparr>"
  have r: "reachable ?A" by (rule sample_agent_reachable) simp
  have s: "map_of (scenario_store ?A) ''scenario_1'' = Some ?sc"
    and c: "map_of (context_store ?A) (UserScenario.company_id ?sc) = Some sample_context"
    by (simp_all add: sample_agent_stores)
  have m: "merge_changes (context_dict sample_context) (changes ?sc) = Inr (context_dict ?u)"
    by (simp add: context_dict_def sample_context_def)
  have i: "FinancialContext_init ?E (context_dict ?u) = Inr ?u"
    by (simp add: FinancialContext_init_def context_dict_def Let_def required_def
        with_default_def rejected_def str_validator_def float_validator_def
        int_validator_def datetime_validator_def dict_validator_def)
  have p: "\<exists>ls. proposed_changes ?E sample_context ?u = Inr ls"
    by (simp add: proposed_changes_def sample_context_def Let_def)
  then obtain t where g: "generate_summary ?E (vector_store ?A) sample_context ?u
      (calculate_impact sample_context ?u) = Inr t"
    by (auto simp: generate_summary_def Let_def)
  obtain analysis agent' where
    a: "analyze_scenario ?E ?A ''scenario_1'' = Inr (analysis, agent')"
    and u: "updated_context analysis = ?u"
    unfolding analyze_scenario_found[OF s c] m by (simp add: i g)
  have u12: "team_size (updated_context analysis) = 12" unfolding u by simp
  have e: "analysis_store ?A = []" by (simp add: sample_agent_stores)
  note t = C9_analysis_recorded[of ?A ?E "''scenario_1''" analysis agent', THEN mp,
      OF conjI[OF r a]]
  have k: "analysis_id analysis = ''analysis_1''"
    using t by (simp add: e str_nat_1)
  have c1: "context_store agent' = context_store ?A" using t by blast
  have c2: "scenario_store agent' = scenario_store ?A" using t by blast
  have c3: "analysis_store agent' = [(''analysis_1'', analysis)]"
    using t k by (simp add: e)
  show ?thesis
    by (intro conjI r exI[of _ analysis] exI[of _ agent'] a u12 k c1 c2 c3)
qed
subsection \<open>The narrative when the text generation service fails\<close>

lemma py_getitem_total:
  "xs \<noteq> [] \<Longrightarrow> - 1 \<le> i \<Longrightarrow> i < int (length xs) \<Longrightarrow> \<exists>x. py_getitem xs i = Inr x"
  by (cases xs; cases "0 \<le> i") (auto simp: py_getitem_def)

lemma select_documents_total:
  "docs \<noteq> [] \<Longrightarrow> \<forall>l \<in> set labels. - 1 \<le> l \<Longrightarrow> \<exists>ds. select_documents docs labels = Inr ds"
proof (induction labels)
  case Nil
  then show ?case by simp
next
  case (Cons l labels)
  then obtain ds where ds: "select_documents docs labels = Inr ds" by auto
  show ?case
  proof (cases "l < int (length docs)")
    case True
    from Cons.prems have "- 1 \<le> l" by simp
    from py_getitem_total[OF Cons.prems(1) this True]
    obtain d where "py_getitem docs l = Inr d" by blast
    then show ?thesis using True ds by simp
  next
    case False
    then show ?thesis using ds by simp
  qed
qed

lemma IndexFlatL2_search_labels: "\<forall>l \<in> set (IndexFlatL2_search vectors q k). - 1 \<le> l"
  by (auto simp: IndexFlatL2_search_def Let_def)

lemma search_total: "0 < k \<Longrightarrow> \<exists>ds. search draw vs query k = Inr ds"
proof (cases "documents vs = []")
  case True
  then show ?thesis by (simp add: search_def)
next
  case False
  assume "0 < k"
  then show ?thesis
    using select_documents_total[OF False IndexFlatL2_search_labels] False
    by (simp add: search_def Let_def)
qed

lemma generate_response_failed:
  assumes "completion ext = (\<lambda>s u. Inl msg)"
  shows "generate_response ext store query = ''Error generating response: '' @ msg"
proof -
  have "0 < SIMILARITY_TOP_K" by (simp add: SIMILARITY_TOP_K_def)
  from search_total[OF this]
  obtain ds where "search (rand ext) store query SIMILARITY_TOP_K = Inr ds" by blast
  then show ?thesis by (simp add: generate_response_def assms Let_def)
qed

lemma validators_completion:
  "str_validator (ext\<lparr>completion := f\<rparr>) = str_validator ext"
  "float_validator (ext\<lparr>completion := f\<rparr>) = float_validator ext"
  "int_validator (ext\<lparr>completion := f\<rparr>) = int_validator ext"
  "datetime_validator (ext\<lparr>completion := f\<rparr>) = datetime_validator ext"
  "dict_validator (ext\<lparr>completion := f\<rparr>) = dict_validator ext"
  by (simp_all add: fun_eq_iff str_validator_def float_validator_def int_validator_def
      datetime_validator_def dict_validator_def split: pyval.splits)

lemma FinancialContext_init_completion:
  "FinancialContext_init (ext\<lparr>completion := f\<rparr>) d = FinancialContext_init ext d"
proof -
  have u: "utcnow (ext\<lparr>completion := f\<rparr>) = utcnow ext" by simp
  show ?thesis unfolding FinancialContext_init_def validators_completion u by (rule refl)
qed

lemma proposed_changes_completion:
  "proposed_changes (ext\<lparr>completion := f\<rparr>) original updated
     = proposed_changes ext original updated"
proof -
  have u: "format_spec (ext\<lparr>completion := f\<rparr>) = format_spec ext" by simp
  show ?thesis unfolding proposed_changes_def u by (rule refl)
qed

lemma generate_summary_raises:
  "generate_summary ext store original updated impact = Inl e
     \<longleftrightarrow> proposed_changes ext original updated = Inl e"
  by (simp add: generate_summary_def Let_def split: sum.splits)

lemma generate_summary_raises_completion:
  "generate_summary ext store original updated impact = Inl e \<Longrightarrow>
   generate_summary (ext\<lparr>completion := f\<rparr>) store original updated impact = Inl e"
  by (simp add: generate_summary_raises proposed_changes_completion)

lemma generate_summary_failed:
  assumes "completion ext = (\<lambda>s u. Inl msg)"
    and "generate_summary ext store original updated impact = Inr t"
  shows "t = ''# Financial Impact Analysis'' @ nl @ nl @ ''Error generating response: '' @ msg"
  using assms(2)
  by (simp add: generate_summary_def Let_def generate_response_failed[OF assms(1)]
      split: sum.splits)

lemma sample_revenue_analysis:
  fixes x :: real
  assumes "x \<noteq> 0"
  shows "\<exists>t. generate_summary (sample_externals outcome)
           (vector_store (sample_agent sample_context [(''monthly_revenue'', PFloat x)]))
           sample_context (sample_context\<lparr>monthly_revenue := 500000 + x\<rparr>)
           (calculate_impact sample_context
              (sample_context\<lparr>monthly_revenue := 500000 + x\<rparr>)) = Inr t
     \<and> analyze_scenario (sample_externals outcome)
           (sample_agent sample_context [(''monthly_revenue'', PFloat x)]) ''scenario_1''
     = Inr (\<lparr>analysis_id = ''analysis_1'',
             FinancialAnalysis.scenario_id = ''scenario_1'',
             FinancialAnalysis.company_id = ''test_company_123'',
             original_context = sample_context,
             updated_context = sample_context\<lparr>monthly_revenue := 500000 + x\<rparr>,
             impact_analysis = [(''revenue_change'', x), (''expense_change'', 0),
               (''marketing_impact'', 0), (''runway_impact'', 0), (''profit_impact'', x)],
             summary = t,
             created_at = 1\<rparr>,
            (sample_agent sample_context [(''monthly_revenue'', PFloat x)])
              \<lparr>analysis_store := [(''analysis_1'',
                \<lparr>analysis_id = ''analysis_1'',
                 FinancialAnalysis.scenario_id = ''scenario_1'',
                 FinancialAnalysis.company_id = ''test_company_123'',
                 original_context = sample_context,
                 updated_context = sample_context\<lparr>monthly_revenue := 500000 + x\<rparr>,
                 impact_analysis = [(''revenue_change'', x), (''expense_change'', 0),
                   (''marketing_impact'', 0), (''runway_impact'', 0), (''profit_impact'', x)],
                 summary = t,
                 created_at = 1\<rparr>)]\<rparr>)"
proof -
  let ?E = "sample_externals outcome"
  let ?A = "sample_agent sample_context [(''monthly_revenue'', PFloat x)]"
  let ?sc = "\<lparr>UserScenario.scenario_id = ''scenario_1'',
        UserScenario.company_id = FinancialContext.company_id sample_context,
        changes = [(''monthly_revenue'', PFloat x)], timestamp = 1\<rparr>"
  let ?u = "sample_context\<lparr>monthly_revenue := 500000 + x\<rparr>"
  have s: "map_of (scenario_store ?A) ''scenario_1'' = Some ?sc"
    and c: "map_of (context_store ?A) (UserScenario.company_id ?sc) = Some sample_context"
    by (simp_all add: sample_agent_stores)
  have m: "merge_changes (context_dict sample_context) (changes ?sc) = Inr (context_dict ?u)"
    by (simp add: context_dict_def sample_context_def)
  have i: "FinancialContext_init ?E (context_dict ?u) = Inr ?u"
    by (simp add: FinancialContext_init_def context_dict_def Let_def required_def
        with_default_def rejected_def str_validator_def float_validator_def
        int_validator_def datetime_validator_def dict_validator_def)
  have p: "\<exists>ls. proposed_changes ?E sample_context ?u = Inr ls"
    using assms by (simp add: proposed_changes_def py_truediv_def sample_context_def Let_def)
  then obtain t where g: "generate_summary ?E (vector_store ?A) sample_context ?u
      (calculate_impact sample_context ?u) = Inr t"
    by (auto simp: generate_summary_def Let_def)
  have k: "calculate_impact sample_context ?u
      = [(''revenue_change'', x), (''expense_change'', 0),
         (''marketing_impact'', 0), (''runway_impact'', 0), (''profit_impact'', x)]"
    by (simp add: calculate_impact_def sample_context_def)
  have e: "analysis_store ?A = []" by (simp add: sample_agent_stores)
  have n: "FinancialContext.company_id sample_context = ''test_company_123''"
    by (simp add: sample_context_def)
  have u: "utcnow ?E = 1" by (simp add: sample_externals_def)
  show ?thesis
    unfolding analyze_scenario_found[OF s c] m
    by (intro exI[of _ t] conjI g) (simp add: i g[unfolded k] k e str_nat_1 n u)
qed

text \<open>
  C4 (as stated): when the text generation service fails, the summary is a fallback
  built from the impact-delta numbers. With the service answering every call by the
  failure \<^verbatim>\<open>timeout\<close>, a revenue change of 1000 and one of 2000 give different impact
  numbers and the same summary, the heading followed by the error message.
\<close>

theorem C4_summary_ignores_impact_counterexample:
  "map_sum (\<lambda>e. e) (\<lambda>r. (impact_analysis (fst r), summary (fst r)))
     (analyze_scenario (sample_externals (Inl ''timeout''))
        (sample_agent sample_context [(''monthly_revenue'', PFloat 1000)]) ''scenario_1'')
   = Inr ([(''revenue_change'', 1000), (''expense_change'', 0), (''marketing_impact'', 0),
           (''runway_impact'', 0), (''profit_impact'', 1000)],
          ''# Financial Impact Analysis'' @ nl @ nl @ ''Error generating response: timeout'')
   \<and> map_sum (\<lambda>e. e) (\<lambda>r. (impact_analysis (fst r), summary (fst r)))
     (analyze_scenario (sample_externals (Inl ''timeout''))
        (sample_agent sample_context [(''monthly_revenue'', PFloat 2000)]) ''scenario_1'')
   = Inr ([(''revenue_change'', 2000), (''expense_change'', 0), (''marketing_impact'', 0),
           (''runway_impact'', 0), (''profit_impact'', 2000)],
          ''# Financial Impact Analysis'' @ nl @ nl @ ''Error generating response: timeout'')"
proof -
  let ?E = "sample_externals (Inl ''timeout'')"
  have f: "completion ?E = (\<lambda>s u. Inl ''timeout'')" by (simp add: sample_externals_def)
  have r: "map_sum (\<lambda>e. e) (\<lambda>r. (impact_analysis (fst r), summary (fst r)))
     (analyze_scenario ?E (sample_agent sample_context [(''monthly_revenue'', PFloat x)])
        ''scenario_1'')
   = Inr ([(''revenue_change'', x), (''expense_change'', 0), (''marketing_impact'', 0),
           (''runway_impact'', 0), (''profit_impact'', x)],
          ''# Financial Impact Analysis'' @ nl @ nl @ ''Error generating response: timeout'')"
    if "x \<noteq> 0" for x :: real
  proof -
    let ?A = "sample_agent sample_context [(''monthly_revenue'', PFloat x)]"
    let ?sc = "\<lparr>UserScenario.scenario_id = ''scenario_1'',
        UserScenario.company_id = FinancialContext.company_id sample_context,
        changes = [(''monthly_revenue'', PFloat x)], timestamp = 1\<rparr>"
    from sample_revenue_analysis[OF that, of "Inl ''timeout''"]
    obtain t where g: "generate_summary ?E (vector_store ?A) sample_context
           (sample_context\<lparr>monthly_revenue := 500000 + x\<rparr>)
           (calculate_impact sample_context
              (sample_context\<lparr>monthly_revenue := 500000 + x\<rparr>)) = Inr t"
      and a: "analyze_scenario ?E ?A ''scenario_1''
     = Inr (\<lparr>analysis_id = ''analysis_1'',
             FinancialAnalysis.scenario_id = ''scenario_1'',
             FinancialAnalysis.company_id = ''test_company_123'',
             original_context = sample_context,
             updated_context = sample_context\<lparr>monthly_revenue := 500000 + x\<rparr>,
             impact_analysis = [(''revenue_change'', x), (''expense_change'', 0),
               (''marketing_impact'', 0), (''runway_impact'', 0), (''profit_impact'', x)],
             summary = t,
             created_at = 1\<rparr>,
            ?A\<lparr>analysis_store := [(''analysis_1'',
                \<lparr>analysis_id = ''analysis_1'',
                 FinancialAnalysis.scenario_id = ''scenario_1'',
                 FinancialAnalysis.company_id = ''test_company_123'',
                 original_context = sample_context,
                 updated_context = sample_context\<lparr>monthly_revenue := 500000 + x\<rparr>,
                 impact_analysis = [(''revenue_change'', x), (''expense_change'', 0),
                   (''marketing_impact'', 0), (''runway_impact'', 0), (''profit_impact'', x)],
                 summary = t,
                 created_at = 1\<rparr>)]\<rparr>)"
      by blast
    have "t = ''# Financial Impact Analysis'' @ nl @ nl
        @ ''Error generating response: '' @ ''timeout''"
      by (rule generate_summary_failed[OF f g])
    then show ?thesis unfolding a by simp
  qed
  have r1: "(1000::real) \<noteq> 0" and r2: "(2000::real) \<noteq> 0" by simp_all
  show ?thesis by (intro conjI r[OF r1] r[OF r2])
qed

text \<open>
  C4 (amended): let the scenario and a context of its company be stored, and let the
  text generation service fail on every call with message \<open>msg\<close>. Then
  \<^verbatim>\<open>analyze_scenario\<close> raises nothing that it would not raise with the service behaving
  in any other way \<open>f\<close>; and when it returns, the analysis holds the stored context,
  the updated context built from the scenario's changes, the impact numbers
  \<^verbatim>\<open>_calculate_impact\<close> computes from the two, and as summary the non-empty string made of
  the heading \<^verbatim>\<open># Financial Impact Analysis\<close>, an empty line and
  \<^verbatim>\<open>Error generating response: <msg>\<close>. The summary carries the failure's message, not
  the impact numbers.
\<close>

theorem C4_generation_failure:
  "completion ext = (\<lambda>s u. Inl msg)
   \<and> map_of (scenario_store agent) sid = Some scenario
   \<and> map_of (context_store agent) (UserScenario.company_id scenario) = Some c
   \<longrightarrow> (\<forall>e. analyze_scenario ext agent sid = Inl e
            \<longrightarrow> analyze_scenario (ext\<lparr>completion := f\<rparr>) agent sid = Inl e)
     \<and> (\<forall>analysis agent'. analyze_scenario ext agent sid = Inr (analysis, agent')
            \<longrightarrow> original_context analysis = c
              \<and> (\<exists>d. merge_changes (context_dict c) (changes scenario) = Inr d
                     \<and> FinancialContext_init ext d = Inr (updated_context analysis))
              \<and> impact_analysis analysis = calculate_impact c (updated_context analysis)
              \<and> summary analysis = ''# Financial Impact Analysis'' @ nl @ nl
                                    @ ''Error generating response: '' @ msg
              \<and> summary analysis \<noteq> [])"
proof (intro impI conjI allI)
  assume h: "completion ext = (\<lambda>s u. Inl msg)
   \<and> map_of (scenario_store agent) sid = Some scenario
   \<and> map_of (context_store agent) (UserScenario.company_id scenario) = Some c"
  then have f: "completion ext = (\<lambda>s u. Inl msg)"
    and s: "map_of (scenario_store agent) sid = Some scenario"
    and c: "map_of (context_store agent) (UserScenario.company_id scenario) = Some c"
    by blast+
  let ?ext' = "ext\<lparr>completion := f\<rparr>"
  have s': "map_of (scenario_store agent) sid = Some scenario" by (rule s)
  {
    fix e assume "analyze_scenario ext agent sid = Inl e"
    then show "analyze_scenario ?ext' agent sid = Inl e"
      unfolding analyze_scenario_found[OF s c] FinancialContext_init_completion
      by (auto split: sum.splits dest: generate_summary_raises_completion[of _ _ _ _ _ _ f])
  }
  {
    fix analysis agent'
    assume a: "analyze_scenario ext agent sid = Inr (analysis, agent')"
    then obtain d u t where m: "merge_changes (context_dict c) (changes scenario) = Inr d"
      and i: "FinancialContext_init ext d = Inr u"
      and g: "generate_summary ext (vector_store agent) c u (calculate_impact c u) = Inr t"
      and o: "original_context analysis = c"
      and uc: "updated_context analysis = u"
      and ia: "impact_analysis analysis = calculate_impact c u"
      and sm: "summary analysis = t"
      unfolding analyze_scenario_found[OF s c]
      by (auto split: sum.splits)
    have t: "t = ''# Financial Impact Analysis'' @ nl @ nl @ ''Error generating response: '' @ msg"
      by (rule generate_summary_failed[OF f g])
    show "original_context analysis = c" by (rule o)
    show "\<exists>d. merge_changes (context_dict c) (changes scenario) = Inr d
                     \<and> FinancialContext_init ext d = Inr (updated_context analysis)"
      using m i uc by blast
    show "impact_analysis analysis = calculate_impact c (updated_context analysis)"
      using ia uc by simp
    show "summary analysis = ''# Financial Impact Analysis'' @ nl @ nl
                                    @ ''Error generating response: '' @ msg"
      using sm t by simp
    show "summary analysis \<noteq> []" using sm t by simp
  }
qed

theorem C4_generation_failure_witness:
  "completion (sample_externals (Inl ''timeout'')) = (\<lambda>s u. Inl ''timeout'')
   \<and> map_of (scenario_store (sample_agent sample_context [(''monthly_revenue'', PFloat 1000)]))
        ''scenario_1''
     = Some \<lparr>UserScenario.scenario_id = ''scenario_1'',
             UserScenario.company_id = ''test_company_123'',
             changes = [(''monthly_revenue'', PFloat 1000)], timestamp = 1\<rparr>
   \<and> map_of (context_store (sample_agent sample_context [(''monthly_revenue'', PFloat 1000)]))
        ''test_company_123''
     = Some sample_context
   \<and> (\<exists>analysis agent'.
        analyze_scenario (sample_externals (Inl ''timeout''))
          (sample_agent sample_context [(''monthly_revenue'', PFloat 1000)]) ''scenario_1''
          = Inr (analysis, agent')
        \<and> original_context analysis = sample_context
        \<and> impact_analysis analysis
            = calculate_impact sample_context (updated_context analysis)
        \<and> summary analysis = ''# Financial Impact Analysis'' @ nl @ nl
                              @ ''Error generating response: '' @ ''timeout'')"
proof -
  let ?E = "sample_externals (Inl ''timeout'')"
  let ?A = "sample_agent sample_context [(''monthly_revenue'', PFloat 1000)]"
  let ?sc = "\<lparr>UserScenario.scenario_id = ''scenario_1'',
             UserScenario.company_id = ''test_company_123'',
             changes = [(''monthly_revenue'', PFloat 1000)], timestamp = 1\<rparr>"
  have f: "completion ?E = (\<lambda>s u. Inl ''timeout'')" by (simp add: sample_externals_def)
  have s: "map_of (scenario_store ?A) ''scenario_1'' = Some ?sc"
    by (simp add: sample_agent_stores sample_context_def)
  have c: "map_of (context_store ?A) ''test_company_123'' = Some sample_context"
    by (simp add: sample_agent_stores sample_context_def)
  have c': "map_of (context_store ?A) (UserScenario.company_id ?sc) = Some sample_context"
    using c by simp
  have nz: "(1000::real) \<noteq> 0" by simp
  from sample_revenue_analysis[OF nz, of "Inl ''timeout''"]
  obtain analysis agent' where a: "analyze_scenario ?E ?A ''scenario_1'' = Inr (analysis, agent')"
    by blast
  note t = C4_generation_failure[of ?E "''timeout''" ?A "''scenario_1''" ?sc sample_context,
      THEN mp, OF conjI[OF f conjI[OF s c']], THEN conjunct2, rule_format, OF a]
  have t1: "original_context analysis = sample_context" using t by blast
  have t2: "impact_analysis analysis
            = calculate_impact sample_context (updated_context analysis)" using t by blast
  have t3: "summary analysis = ''# Financial Impact Analysis'' @ nl @ nl
                              @ ''Error generating response: '' @ ''timeout''" using t by blast
  show ?thesis
    by (intro conjI f s c exI[of _ analysis] exI[of _ agent'] a t1 t2 t3)
qed
subsection \<open>The updated context\<close>
















end
